theory Spec2Isabelle
  imports Main "HOL-Library.Word"
begin

unbundle bit_operations_syntax

section \<open>Platform/Canvas.cpp\<close>

text \<open>
  The build without \<^verbatim>\<open>LLGL_MOBILE_PLATFORM\<close>: \<^verbatim>\<open>Canvas::Create\<close> returns
  \<^verbatim>\<open>nullptr\<close> (\<open>None\<close>) and ignores its descriptor. The descriptor and canvas types
  are declared in headers outside the sources at hand, so they stay type parameters.
\<close>

definition Canvas_Create :: "'desc \<Rightarrow> 'canvas option" where
  "Canvas_Create desc = None"

definition AdaptForVideoMode :: "'canvas \<Rightarrow> 'videoModeDesc \<Rightarrow> bool" where
  "AdaptForVideoMode canvas videoModeDesc = False"

text \<open>
  A canvas holds its listeners in \<^verbatim>\<open>eventListeners_\<close>, a vector of shared pointers.
  A listener is identified by its address, a value of type \<open>'l\<close>.
\<close>

record 'l Canvas =
  eventListeners :: "'l list"

definition Canvas_init :: "'l Canvas" where
  "Canvas_init = \<lparr>eventListeners = []\<rparr>"

text \<open>
  Modelled from the spec: \<^verbatim>\<open>AddOnceToSharedList\<close> and \<^verbatim>\<open>RemoveFromSharedList\<close> of
  \<^verbatim>\<open>Core/Helper.h\<close> are missing from the sources. The first appends the entry unless
  the list already holds it; the second erases the entry from the list.
\<close>

definition AddOnceToSharedList :: "'l list \<Rightarrow> 'l \<Rightarrow> 'l list" where
  "AddOnceToSharedList cont entry = (if entry \<in> set cont then cont else cont @ [entry])"

definition RemoveFromSharedList :: "'l list \<Rightarrow> 'l \<Rightarrow> 'l list" where
  "RemoveFromSharedList cont entry = remove1 entry cont"

definition AddEventListener :: "'l Canvas \<Rightarrow> 'l \<Rightarrow> 'l Canvas" where
  "AddEventListener c eventListener =
     c\<lparr>eventListeners := AddOnceToSharedList (eventListeners c) eventListener\<rparr>"

definition RemoveEventListener :: "'l Canvas \<Rightarrow> 'l \<Rightarrow> 'l Canvas" where
  "RemoveEventListener c eventListener =
     c\<lparr>eventListeners := RemoveFromSharedList (eventListeners c) eventListener\<rparr>"

text \<open>
  \<^verbatim>\<open>ProcessEvents\<close> calls \<^verbatim>\<open>OnProcessEvents(*this)\<close> on every listener, in list order,
  and then the canvas's own \<^verbatim>\<open>OnProcessEvents()\<close>. The calls are the observable effect,
  so the model returns them as a trace.
\<close>

datatype 'l CanvasCall =
    ListenerOnProcessEvents 'l
  | CanvasOnProcessEvents

definition ProcessEvents :: "'l Canvas \<Rightarrow> 'l CanvasCall list" where
  "ProcessEvents c = map ListenerOnProcessEvents (eventListeners c) @ [CanvasOnProcessEvents]"

text \<open>The sequences of listener operations a client can issue on a canvas.\<close>

datatype 'l CanvasOp =
    OpAddEventListener 'l
  | OpRemoveEventListener 'l

fun applyCanvasOp :: "'l Canvas \<Rightarrow> 'l CanvasOp \<Rightarrow> 'l Canvas" where
  "applyCanvasOp c (OpAddEventListener l) = AddEventListener c l"
| "applyCanvasOp c (OpRemoveEventListener l) = RemoveEventListener c l"

definition runCanvasOps :: "'l CanvasOp list \<Rightarrow> 'l Canvas" where
  "runCanvasOps ops = foldl applyCanvasOp Canvas_init ops"


section \<open>Renderer/OpenGL/GLSwapChain.cpp\<close>

text \<open>
  Of the swap chain's members only \<^verbatim>\<open>framebufferHeight_\<close> (a \<^verbatim>\<open>GLint\<close>) is a plain
  value; the two queries below read none of them.
\<close>

record GLSwapChain =
  framebufferHeight :: "32 word"

definition GetCurrentSwapIndex :: "GLSwapChain \<Rightarrow> 32 word" where
  "GetCurrentSwapIndex sc = 0"

definition GetNumSwapBuffers :: "GLSwapChain \<Rightarrow> 32 word" where
  "GetNumSwapBuffers sc = 1"


section \<open>tests/Testbed/TestbedMain.cpp\<close>

record ModuleAndVersion =
  name :: string
  version :: int

text \<open>
  \<^verbatim>\<open>std::string::c_str\<close> followed by the constructor from \<^verbatim>\<open>const char*\<close>: the C string
  ends at the first NUL character.
\<close>

definition c_str :: "string \<Rightarrow> string" where
  "c_str s = takeWhile (\<lambda>c. c \<noteq> CHR 0x00) s"

definition isdigit :: "char \<Rightarrow> bool" where
  "isdigit c = (48 \<le> (of_char c :: nat) \<and> (of_char c :: nat) \<le> 57)"

definition isspace :: "char \<Rightarrow> bool" where
  "isspace c = ((of_char c :: nat) = 32 \<or> (9 \<le> (of_char c :: nat) \<and> (of_char c :: nat) \<le> 13))"

text \<open>
  \<^verbatim>\<open>std::atoi\<close> of the C library: leading white space, an optional sign, then decimal
  digits up to the first other character.
\<close>

fun atoi_digits :: "int \<Rightarrow> string \<Rightarrow> int" where
  "atoi_digits acc [] = acc"
| "atoi_digits acc (c # cs) =
     (if isdigit c then atoi_digits (acc * 10 + (int (of_char c) - 48)) cs else acc)"

definition atoi :: "string \<Rightarrow> int" where
  "atoi s =
     (case dropWhile isspace s of
        [] \<Rightarrow> 0
      | c # cs \<Rightarrow>
          if c = CHR ''-'' then - atoi_digits 0 cs
          else if c = CHR ''+'' then atoi_digits 0 cs
          else atoi_digits 0 (c # cs))"

text \<open>
  \<^verbatim>\<open>std::regex_match(name, std::regex(prefix + R"(\d{3})"))\<close>: the whole string is the
  literal prefix followed by exactly three decimal digits.
\<close>

definition regex_match_3digits :: "string \<Rightarrow> string \<Rightarrow> bool" where
  "regex_match_3digits pre s =
     (length s = length pre + 3 \<and> take (length pre) s = pre \<and>
      list_all isdigit (drop (length pre) s))"

definition GetRendererModule :: "string \<Rightarrow> ModuleAndVersion" where
  "GetRendererModule nm =
     (if nm = ''gl'' \<or> nm = ''opengl'' then
        \<lparr>name = ''OpenGL'', version = 0\<rparr>
      else if nm = ''vk'' \<or> nm = ''vulkan'' then
        \<lparr>name = ''Vulkan'', version = 0\<rparr>
      else if nm = ''mt'' \<or> nm = ''mtl'' \<or> nm = ''metal'' then
        \<lparr>name = ''Metal'', version = 0\<rparr>
      else if nm = ''d3d11'' \<or> nm = ''dx11'' \<or> nm = ''direct3d11'' then
        \<lparr>name = ''Direct3D11'', version = 0\<rparr>
      else if nm = ''d3d12'' \<or> nm = ''dx12'' \<or> nm = ''direct3d12'' then
        \<lparr>name = ''Direct3D12'', version = 0\<rparr>
      else if nm = ''null'' then
        \<lparr>name = ''Null'', version = 0\<rparr>
      else if regex_match_3digits ''gl'' nm then
        \<lparr>name = ''OpenGL'', version = atoi (drop 2 (c_str nm))\<rparr>
      else if regex_match_3digits ''opengl'' nm then
        \<lparr>name = ''OpenGL'', version = atoi (drop 6 (c_str nm))\<rparr>
      else
        \<lparr>name = c_str nm, version = 0\<rparr>)"

text \<open>The value of a decimal digit character.\<close>

definition digit_val :: "char \<Rightarrow> int" where
  "digit_val c = int (of_char c) - 48"



section \<open>Renderer/Direct3D12/Buffer/D3D12StagingBufferPool.cpp\<close>

subsection \<open>The Direct3D 12 interface the pool is written against\<close>

type_synonym byte = "8 word"
type_synonym UINT64 = "64 word"
type_synonym HRESULT = "32 word"
type_synonym D3D12_RESOURCE_STATES = "32 word"

definition S_OK :: HRESULT where
  "S_OK = 0"

definition FAILED :: "HRESULT \<Rightarrow> bool" where
  "FAILED hr = (sint hr < 0)"

definition D3D12_RESOURCE_STATE_COPY_DEST :: D3D12_RESOURCE_STATES where
  "D3D12_RESOURCE_STATE_COPY_DEST = 0x400"

definition D3D12_RESOURCE_STATE_COPY_SOURCE :: D3D12_RESOURCE_STATES where
  "D3D12_RESOURCE_STATE_COPY_SOURCE = 0x800"

datatype D3D12_HEAP_TYPE = D3D12_HEAP_TYPE_UPLOAD | D3D12_HEAP_TYPE_READBACK

text \<open>
  The commands recorded on a graphics command list. \<open>CopyBufferRegion dst dstOffset src
  srcOffset numBytes\<close> has the argument order of the native call.
\<close>

datatype D3D12Command =
    CopyBufferRegion nat UINT64 nat UINT64 UINT64
  | ResourceBarrier nat D3D12_RESOURCE_STATES D3D12_RESOURCE_STATES

text \<open>
  A native resource (\<^verbatim>\<open>ID3D12Resource*\<close>) is a handle, a natural number. The device owns
  the bytes of every resource and is the explicit store the pool's functions read and write:
  \<open>resourceMemory\<close> gives the contents by handle, \<open>numResources\<close> is the next fresh
  handle, and \<open>resourceCalls\<close> logs the \<^verbatim>\<open>Map\<close> and \<^verbatim>\<open>Unmap\<close> calls with their ranges
  (\<^verbatim>\<open>SIZE_T\<close> is taken as 64 bits wide, the x64 build). \<open>submittedCommands\<close> logs the
  commands the command queue has submitted to the GPU, in order.
\<close>

datatype ResourceCall =
    Map nat UINT64 UINT64
  | Unmap nat UINT64 UINT64

record ID3D12Device =
  resourceMemory :: "nat \<Rightarrow> byte list"
  numResources :: nat
  resourceCalls :: "ResourceCall list"
  submittedCommands :: "D3D12Command list"

record D3D12CommandContext =
  commandList :: "D3D12Command list"

text \<open>
  \<^verbatim>\<open>D3D12Resource\<close>: the native resource (\<^verbatim>\<open>Get()\<close>) and the tracked state
  \<^verbatim>\<open>currentState\<close>, the two members the pool uses.
\<close>

record D3D12Resource =
  native :: nat
  currentState :: D3D12_RESOURCE_STATES

text \<open>
  Copying \<open>n\<close> bytes from \<open>src\<close> at \<open>srcOff\<close> into \<open>dst\<close> at \<open>dstOff\<close>. A copy that
  leaves either region is undefined behaviour for \<^verbatim>\<open>memcpy\<close> and an invalid call for the
  GPU: \<open>None\<close>.
\<close>

definition copyRegion :: "byte list \<Rightarrow> nat \<Rightarrow> byte list \<Rightarrow> nat \<Rightarrow> nat \<Rightarrow> byte list option" where
  "copyRegion dst dstOff src srcOff n =
     (if srcOff + n \<le> length src \<and> dstOff + n \<le> length dst
      then Some (take dstOff dst @ take n (drop srcOff src) @ drop (dstOff + n) dst)
      else None)"

fun execCommand :: "ID3D12Device \<Rightarrow> D3D12Command \<Rightarrow> ID3D12Device option" where
  "execCommand dev (CopyBufferRegion dst dstOffset src srcOffset numBytes) =
     (case copyRegion (resourceMemory dev dst) (unat dstOffset)
             (resourceMemory dev src) (unat srcOffset) (unat numBytes) of
        None \<Rightarrow> None
      | Some m \<Rightarrow> Some (dev\<lparr>resourceMemory := (resourceMemory dev)(dst := m)\<rparr>))"
| "execCommand dev (ResourceBarrier r before after) = Some dev"

fun execCommands :: "ID3D12Device \<Rightarrow> D3D12Command list \<Rightarrow> ID3D12Device option" where
  "execCommands dev [] = Some dev"
| "execCommands dev (c # cs) =
     (case execCommand dev c of None \<Rightarrow> None | Some dev' \<Rightarrow> execCommands dev' cs)"

text \<open>
  Modelled from the spec: \<^verbatim>\<open>D3D12CommandContext::TransitionResource\<close> (resource state
  tracking) is missing from the sources. It transitions the resource to the new state: a
  barrier is recorded when the tracked state differs, and the tracked state becomes the new
  state. The flush flag only decides when the recorded barrier reaches the command list and
  is left out.
\<close>

definition TransitionResource ::
  "D3D12CommandContext \<Rightarrow> D3D12Resource \<Rightarrow> D3D12_RESOURCE_STATES \<Rightarrow>
   D3D12CommandContext \<times> D3D12Resource" where
  "TransitionResource ctx resource newState =
     (if currentState resource \<noteq> newState
      then (ctx\<lparr>commandList := commandList ctx @
                 [ResourceBarrier (native resource) (currentState resource) newState]\<rparr>,
            resource\<lparr>currentState := newState\<rparr>)
      else (ctx, resource))"

text \<open>
  What a transfer records for a resource it copies to or from: the copy commands, between a
  barrier that takes the resource from its tracked state to the copy state and a barrier
  that takes it back. A resource that is in the copy state already gets no barrier.
\<close>

definition copyBracket ::
  "D3D12Resource \<Rightarrow> D3D12_RESOURCE_STATES \<Rightarrow> D3D12Command list \<Rightarrow> D3D12Command list" where
  "copyBracket resource copyState copies =
     (if currentState resource = copyState then copies
      else ResourceBarrier (native resource) (currentState resource) copyState # copies @
           [ResourceBarrier (native resource) copyState (currentState resource)])"

text \<open>The native resources a command names.\<close>

fun commandResources :: "D3D12Command \<Rightarrow> nat list" where
  "commandResources (CopyBufferRegion dst dstOffset src srcOffset numBytes) = [dst, src]"
| "commandResources (ResourceBarrier r before after) = [r]"

text \<open>
  Modelled from the spec: \<^verbatim>\<open>D3D12CommandQueue::FinishAndSubmitCommandContext\<close> (CPU/GPU
  synchronization) is missing from the sources. With \<^verbatim>\<open>waitIdle = true\<close>, as the pool calls
  it, the recorded commands have been submitted and have run on the GPU when it returns, and
  the command list is empty again.
\<close>

definition FinishAndSubmitCommandContext ::
  "D3D12CommandContext \<Rightarrow> ID3D12Device \<Rightarrow> (D3D12CommandContext \<times> ID3D12Device) option" where
  "FinishAndSubmitCommandContext ctx dev =
     (case execCommands dev (commandList ctx) of
        None \<Rightarrow> None
      | Some dev' \<Rightarrow>
          Some (ctx\<lparr>commandList := []\<rparr>,
                dev'\<lparr>submittedCommands := submittedCommands dev' @ commandList ctx\<rparr>))"

text \<open>
  Modelled from the spec: \<^verbatim>\<open>GetAlignedSize\<close> of \<^verbatim>\<open>Core/CoreUtils.h\<close> is missing from the
  sources. It is the alignment-rounded size: the size rounded up to the next multiple of the
  alignment, as a \<^verbatim>\<open>UINT64\<close>.
\<close>

definition GetAlignedSize :: "UINT64 \<Rightarrow> UINT64 \<Rightarrow> UINT64" where
  "GetAlignedSize sz alignment =
     (if 1 < alignment
      then of_nat (((unat sz + unat alignment - 1) div unat alignment) * unat alignment)
      else sz)"


subsection \<open>The staging buffer\<close>

text \<open>
  Modelled from the spec: the class \<^verbatim>\<open>D3D12StagingBuffer\<close> is missing from the sources. A
  staging buffer is a CPU-visible memory region with a capacity (\<open>bufSize\<close>) and a write
  offset (\<open>bufOffset\<close>); \<open>bufNative\<close> is its native resource, \<open>None\<close> for the null
  pointer of a buffer that was never created.
  \<^item> \<open>Capacity\<close>: the remaining capacity, size minus write offset, is not less than the
    requested size.
  \<^item> \<open>D3D12StagingBuffer_Reset\<close>: the write offset becomes zero.
  \<^item> \<open>D3D12StagingBuffer_new\<close>: the constructor of a chunk of the given size.
  \<^item> \<open>D3D12StagingBuffer_Create\<close>: re-creates the buffer with the alignment-rounded size.
  \<^item> \<open>Write\<close>: maps the buffer, copies the data to the write offset, unmaps it with the
    written range and records the copy to the destination; a failing \<^verbatim>\<open>Map\<close> result is
    returned as it is. The result of \<^verbatim>\<open>Map\<close> is the environment's, the argument
    \<open>mapResult\<close>.
  \<^item> \<open>WriteAndIncrementOffset\<close>: \<open>Write\<close>, then the write offset advances by the size
    of the data when the write succeeded.
\<close>

record D3D12StagingBuffer =
  bufNative :: "nat option"
  bufSize :: UINT64
  bufOffset :: UINT64

definition D3D12StagingBuffer_default :: D3D12StagingBuffer where
  "D3D12StagingBuffer_default = \<lparr>bufNative = None, bufSize = 0, bufOffset = 0\<rparr>"

definition Capacity :: "D3D12StagingBuffer \<Rightarrow> UINT64 \<Rightarrow> bool" where
  "Capacity buf dataSize = (dataSize \<le> bufSize buf - bufOffset buf)"

definition D3D12StagingBuffer_Reset :: "D3D12StagingBuffer \<Rightarrow> D3D12StagingBuffer" where
  "D3D12StagingBuffer_Reset buf = buf\<lparr>bufOffset := 0\<rparr>"

definition CreateResource :: "ID3D12Device \<Rightarrow> UINT64 \<Rightarrow> nat \<times> ID3D12Device" where
  "CreateResource dev sz =
     (numResources dev,
      dev\<lparr>resourceMemory := (resourceMemory dev)(numResources dev := replicate (unat sz) 0),
          numResources := Suc (numResources dev)\<rparr>)"

definition D3D12StagingBuffer_new ::
  "ID3D12Device \<Rightarrow> UINT64 \<Rightarrow> D3D12StagingBuffer \<times> ID3D12Device" where
  "D3D12StagingBuffer_new dev sz =
     (let (r, dev') = CreateResource dev sz
      in (\<lparr>bufNative = Some r, bufSize = sz, bufOffset = 0\<rparr>, dev'))"

definition D3D12StagingBuffer_Create ::
  "D3D12StagingBuffer \<Rightarrow> ID3D12Device \<Rightarrow> UINT64 \<Rightarrow> UINT64 \<Rightarrow> D3D12_HEAP_TYPE \<Rightarrow>
   D3D12StagingBuffer \<times> ID3D12Device" where
  "D3D12StagingBuffer_Create buf dev sz alignment heapType =
     (let (r, dev') = CreateResource dev (GetAlignedSize sz alignment)
      in (\<lparr>bufNative = Some r, bufSize = GetAlignedSize sz alignment, bufOffset = 0\<rparr>, dev'))"

definition Write ::
  "D3D12StagingBuffer \<Rightarrow> ID3D12Device \<Rightarrow> D3D12CommandContext \<Rightarrow> nat \<Rightarrow> UINT64 \<Rightarrow> byte list \<Rightarrow>
   UINT64 \<Rightarrow> HRESULT \<Rightarrow> (HRESULT \<times> ID3D12Device \<times> D3D12CommandContext) option" where
  "Write buf dev ctx dstBuffer dstOffset data dataSize mapResult =
     (case bufNative buf of
        None \<Rightarrow> None
      | Some r \<Rightarrow>
          let dev1 = dev\<lparr>resourceCalls := resourceCalls dev @ [Map r 0 0]\<rparr>
          in if FAILED mapResult then Some (mapResult, dev1, ctx)
             else
               (case copyRegion (resourceMemory dev1 r) (unat (bufOffset buf))
                       data 0 (unat dataSize) of
                  None \<Rightarrow> None
                | Some m \<Rightarrow>
                    Some (S_OK,
                      dev1\<lparr>resourceMemory := (resourceMemory dev1)(r := m),
                           resourceCalls := resourceCalls dev1 @
                             [Unmap r (bufOffset buf) (bufOffset buf + dataSize)]\<rparr>,
                      ctx\<lparr>commandList := commandList ctx @
                        [CopyBufferRegion dstBuffer dstOffset r (bufOffset buf) dataSize]\<rparr>)))"

definition WriteAndIncrementOffset ::
  "D3D12StagingBuffer \<Rightarrow> ID3D12Device \<Rightarrow> D3D12CommandContext \<Rightarrow> nat \<Rightarrow> UINT64 \<Rightarrow> byte list \<Rightarrow>
   UINT64 \<Rightarrow> HRESULT \<Rightarrow>
   (HRESULT \<times> D3D12StagingBuffer \<times> ID3D12Device \<times> D3D12CommandContext) option" where
  "WriteAndIncrementOffset buf dev ctx dstBuffer dstOffset data dataSize mapResult =
     (case Write buf dev ctx dstBuffer dstOffset data dataSize mapResult of
        None \<Rightarrow> None
      | Some (hr, dev', ctx') \<Rightarrow>
          Some (hr, (if FAILED hr then buf else buf\<lparr>bufOffset := bufOffset buf + dataSize\<rparr>),
                dev', ctx'))"


subsection \<open>The staging buffer pool\<close>

text \<open>
  The pool's members. \<^verbatim>\<open>device_\<close> points to the device, which the functions below take
  and return as the store. \<^verbatim>\<open>chunkIdx_\<close> is a \<^verbatim>\<open>std::size_t\<close> that only counts up to
  the number of chunks, so it is a natural number.
\<close>

record D3D12StagingBufferPool =
  chunkSize :: UINT64
  chunks :: "D3D12StagingBuffer list"
  chunkIdx :: nat
  globalUploadBuffer :: D3D12StagingBuffer
  globalReadbackBuffer :: D3D12StagingBuffer



definition Reset :: "D3D12StagingBufferPool \<Rightarrow> D3D12StagingBufferPool" where
  "Reset pool = pool\<lparr>chunks := map D3D12StagingBuffer_Reset (chunks pool), chunkIdx := 0\<rparr>"

definition AllocChunk ::
  "D3D12StagingBufferPool \<Rightarrow> ID3D12Device \<Rightarrow> UINT64 \<Rightarrow> D3D12StagingBufferPool \<times> ID3D12Device" where
  "AllocChunk pool dev minChunkSize =
     (let (chunk, dev') = D3D12StagingBuffer_new dev (max (chunkSize pool) minChunkSize)
      in (pool\<lparr>chunks := chunks pool @ [chunk],
               chunkIdx := length (chunks pool @ [chunk]) - 1\<rparr>, dev'))"

definition ResizeBuffer ::
  "D3D12StagingBuffer \<Rightarrow> ID3D12Device \<Rightarrow> D3D12_HEAP_TYPE \<Rightarrow> UINT64 \<Rightarrow> UINT64 \<Rightarrow>
   D3D12StagingBuffer \<times> ID3D12Device" where
  "ResizeBuffer stagingBuffer dev heapType sz alignment =
     (let alignedSize = GetAlignedSize sz alignment
      in if \<not> Capacity stagingBuffer alignedSize
         then D3D12StagingBuffer_Create stagingBuffer dev alignedSize 4096 heapType
         else (stagingBuffer, dev))"

definition GetUploadBufferAndGrow ::
  "D3D12StagingBufferPool \<Rightarrow> ID3D12Device \<Rightarrow> UINT64 \<Rightarrow> UINT64 \<Rightarrow>
   D3D12StagingBufferPool \<times> ID3D12Device" where
  "GetUploadBufferAndGrow pool dev sz alignment =
     (let (buf, dev') = ResizeBuffer (globalUploadBuffer pool) dev D3D12_HEAP_TYPE_UPLOAD sz alignment
      in (pool\<lparr>globalUploadBuffer := buf\<rparr>, dev'))"

definition GetReadbackBufferAndGrow ::
  "D3D12StagingBufferPool \<Rightarrow> ID3D12Device \<Rightarrow> UINT64 \<Rightarrow> UINT64 \<Rightarrow>
   D3D12StagingBufferPool \<times> ID3D12Device" where
  "GetReadbackBufferAndGrow pool dev sz alignment =
     (let (buf, dev') =
        ResizeBuffer (globalReadbackBuffer pool) dev D3D12_HEAP_TYPE_READBACK sz alignment
      in (pool\<lparr>globalReadbackBuffer := buf\<rparr>, dev'))"

text \<open>
  The loop of \<^verbatim>\<open>WriteStaged\<close>:
  \<^verbatim>\<open>while (chunkIdx_ < chunks_.size() && !chunks_[chunkIdx_].Capacity(dataSize)) ++chunkIdx_;\<close>
\<close>

function WriteStaged_findChunk :: "D3D12StagingBuffer list \<Rightarrow> nat \<Rightarrow> UINT64 \<Rightarrow> nat" where
  "WriteStaged_findChunk cs idx dataSize =
     (if idx < length cs \<and> \<not> Capacity (cs ! idx) dataSize
      then WriteStaged_findChunk cs (idx + 1) dataSize
      else idx)"
  by pat_completeness auto
termination
  by (relation "measure (\<lambda>(cs, idx, dataSize). length cs - idx)") auto

declare WriteStaged_findChunk.simps [simp del]

text \<open>
  The functions return \<open>None\<close> where the C++ has undefined behaviour: an index past the end
  of \<^verbatim>\<open>chunks_\<close>, a call through a null native resource, a copy that leaves a memory
  region. The last argument, \<open>mapResult\<close>, is what \<^verbatim>\<open>ID3D12Resource::Map\<close> returns.
\<close>

definition WriteStaged ::
  "D3D12StagingBufferPool \<Rightarrow> ID3D12Device \<Rightarrow> D3D12CommandContext \<Rightarrow> D3D12Resource \<Rightarrow> UINT64 \<Rightarrow>
   byte list \<Rightarrow> UINT64 \<Rightarrow> HRESULT \<Rightarrow>
   (HRESULT \<times> D3D12StagingBufferPool \<times> ID3D12Device \<times> D3D12CommandContext \<times> D3D12Resource) option"
  where
  "WriteStaged pool dev ctx dstBuffer dstOffset data dataSize mapResult =
     (let pool1 = pool\<lparr>chunkIdx := WriteStaged_findChunk (chunks pool) (chunkIdx pool) dataSize\<rparr>;
          (pool2, dev2) =
            (if chunkIdx pool1 = length (chunks pool1) then AllocChunk pool1 dev dataSize
             else (pool1, dev));
          oldResourceState = currentState dstBuffer;
          (ctx1, dst1) = TransitionResource ctx dstBuffer D3D12_RESOURCE_STATE_COPY_DEST
      in if chunkIdx pool2 < length (chunks pool2) then
           (case WriteAndIncrementOffset (chunks pool2 ! chunkIdx pool2) dev2 ctx1 (native dst1)
                   dstOffset data dataSize mapResult of
              None \<Rightarrow> None
            | Some (hr, chunk, dev3, ctx2) \<Rightarrow>
                let (ctx3, dst2) = TransitionResource ctx2 dst1 oldResourceState
                in Some (hr, pool2\<lparr>chunks := (chunks pool2)[chunkIdx pool2 := chunk]\<rparr>,
                         dev3, ctx3, dst2))
         else None)"

definition WriteImmediate ::
  "D3D12StagingBufferPool \<Rightarrow> ID3D12Device \<Rightarrow> D3D12CommandContext \<Rightarrow> D3D12Resource \<Rightarrow> UINT64 \<Rightarrow>
   byte list \<Rightarrow> UINT64 \<Rightarrow> UINT64 \<Rightarrow> HRESULT \<Rightarrow>
   (HRESULT \<times> D3D12StagingBufferPool \<times> ID3D12Device \<times> D3D12CommandContext \<times> D3D12Resource) option"
  where
  "WriteImmediate pool dev ctx dstBuffer dstOffset data dataSize alignment mapResult =
     (let oldResourceState = currentState dstBuffer;
          (ctx1, dst1) = TransitionResource ctx dstBuffer D3D12_RESOURCE_STATE_COPY_DEST;
          (pool1, dev1) = GetUploadBufferAndGrow pool dev dataSize alignment
      in case Write (globalUploadBuffer pool1) dev1 ctx1 (native dst1) dstOffset data dataSize
                mapResult of
           None \<Rightarrow> None
         | Some (hr, dev2, ctx2) \<Rightarrow>
             let (ctx3, dst2) = TransitionResource ctx2 dst1 oldResourceState
             in Some (hr, pool1, dev2, ctx3, dst2))"

text \<open>
  \<^verbatim>\<open>ReadSubresourceRegion\<close> also returns the caller's output memory \<open>data\<close>, the bytes
  from the pointer it was given onwards.
\<close>

definition ReadSubresourceRegion ::
  "D3D12StagingBufferPool \<Rightarrow> ID3D12Device \<Rightarrow> D3D12CommandContext \<Rightarrow> D3D12Resource \<Rightarrow> UINT64 \<Rightarrow>
   byte list \<Rightarrow> UINT64 \<Rightarrow> UINT64 \<Rightarrow> HRESULT \<Rightarrow>
   (HRESULT \<times> D3D12StagingBufferPool \<times> ID3D12Device \<times> D3D12CommandContext \<times> D3D12Resource \<times>
    byte list) option"
  where
  "ReadSubresourceRegion pool dev ctx srcBuffer srcOffset data dataSize alignment mapResult =
     (let (pool1, dev1) = GetReadbackBufferAndGrow pool dev dataSize alignment;
          oldResourceState = currentState srcBuffer;
          (ctx1, src1) = TransitionResource ctx srcBuffer D3D12_RESOURCE_STATE_COPY_SOURCE
      in case bufNative (globalReadbackBuffer pool1) of
           None \<Rightarrow> None
         | Some readback \<Rightarrow>
             let ctx2 = ctx1\<lparr>commandList := commandList ctx1 @
                          [CopyBufferRegion readback 0 (native src1) srcOffset dataSize]\<rparr>;
                 (ctx3, src2) = TransitionResource ctx2 src1 oldResourceState
             in case FinishAndSubmitCommandContext ctx3 dev1 of
                  None \<Rightarrow> None
                | Some (ctx4, dev2) \<Rightarrow>
                    let dev3 = dev2\<lparr>resourceCalls := resourceCalls dev2 @ [Map readback 0 dataSize]\<rparr>
                    in if FAILED mapResult then Some (mapResult, pool1, dev3, ctx4, src2, data)
                       else
                         (case copyRegion data 0 (resourceMemory dev3 readback) 0 (unat dataSize) of
                            None \<Rightarrow> None
                          | Some data' \<Rightarrow>
                              Some (S_OK, pool1,
                                dev3\<lparr>resourceCalls := resourceCalls dev3 @ [Unmap readback 0 0]\<rparr>,
                                ctx4, src2, data')))"





text \<open>
  A staging buffer is allocated on a device when its native resource exists there, holds as
  many bytes as the buffer's size says, and the write offset is within the size.
\<close>

definition allocated :: "ID3D12Device \<Rightarrow> D3D12StagingBuffer \<Rightarrow> bool" where
  "allocated dev buf =
     (case bufNative buf of
        None \<Rightarrow> False
      | Some r \<Rightarrow> r < numResources dev \<and> length (resourceMemory dev r) = unat (bufSize buf) \<and>
          bufOffset buf \<le> bufSize buf)"

text \<open>
  A global buffer of the pool is in order on a device when its write offset is zero and it
  either was never created (no native resource, size zero) or its native resource exists
  there and holds as many bytes as the buffer's size says.
\<close>

definition globalBufferOk :: "ID3D12Device \<Rightarrow> D3D12StagingBuffer \<Rightarrow> bool" where
  "globalBufferOk dev buf =
     (bufOffset buf = 0 \<and>
      (case bufNative buf of
         None \<Rightarrow> bufSize buf = 0
       | Some r \<Rightarrow> r < numResources dev \<and> length (resourceMemory dev r) = unat (bufSize buf)))"


subsection \<open>A small pool on a small device\<close>

text \<open>
  Resource 0 is a GPU buffer of twelve bytes in the state 1
  (\<^verbatim>\<open>D3D12_RESOURCE_STATE_VERTEX_AND_CONSTANT_BUFFER\<close>); resources 1 and 2 back the two
  chunks of the pool, the first of them full.
\<close>

definition exampleDevice :: ID3D12Device where
  "exampleDevice =
     \<lparr>resourceMemory = (\<lambda>r. [])(0 := [1, 2, 3, 4, 5, 6, 7, 8, 9, 10, 11, 12], 1 := [7, 7, 7, 7],
        2 := [0, 0, 0, 0, 0, 0, 0, 0]),
      numResources = 3, resourceCalls = [], submittedCommands = []\<rparr>"

definition examplePool :: D3D12StagingBufferPool where
  "examplePool =
     \<lparr>chunkSize = 16,
      chunks = [\<lparr>bufNative = Some 1, bufSize = 4, bufOffset = 4\<rparr>,
                \<lparr>bufNative = Some 2, bufSize = 8, bufOffset = 0\<rparr>],
      chunkIdx = 0,
      globalUploadBuffer = D3D12StagingBuffer_default,
      globalReadbackBuffer = D3D12StagingBuffer_default\<rparr>"

definition exampleContext :: D3D12CommandContext where
  "exampleContext = \<lparr>commandList = []\<rparr>"

definition exampleBuffer :: D3D12Resource where
  "exampleBuffer = \<lparr>native = 0, currentState = 1\<rparr>"


subsection \<open>Sequences of pool operations\<close>





text \<open>
  The size an operation requests of a global buffer, rounded to the alignment and then to
  4096, stays below \<open>2^64\<close>.
\<close>

definition sizeFits :: "UINT64 \<Rightarrow> UINT64 \<Rightarrow> bool" where
  "sizeFits sz alignment = (unat sz + unat alignment + 4096 \<le> 2 ^ 64)"





section \<open>Renderer/OpenGL/Command/GLCommand.h\<close>

text \<open>
  The header declares one payload struct per opcode of the deferred command buffer. Its
  layout in the stream is what the replay needs: how many members the struct has, and which
  arrays follow it directly (the commented-out trailing members of the header), each with as
  many elements as one of the members says. \<open>Arrays k i\<close> stands for \<open>k\<close> arrays whose
  element count is member \<open>i\<close> (counted from 0).
\<close>

datatype Trailing = NoTrailing | Arrays nat nat

record GLCmdLayout =
  opcodeName :: string
  payloadStruct :: string
  numMembers :: nat
  trailingArrays :: Trailing

definition layout :: "string \<Rightarrow> string \<Rightarrow> nat \<Rightarrow> Trailing \<Rightarrow> GLCmdLayout" where
  "layout opc st n tr =
     \<lparr>opcodeName = opc, payloadStruct = st, numMembers = n, trailingArrays = tr\<rparr>"

text \<open>
  The payload structs in the order of the header, those under
  \<^verbatim>\<open>LLGL_GL_ENABLE_OPENGL2X\<close> included. \<^verbatim>\<open>GLCmdCopyImageBuffer\<close> serves two opcodes; the
  four structs the header comments out as empty (\<^verbatim>\<open>GLCmdEndTransformFeedback\<close> and so on)
  are opcodes without payload. The trailing data of \<^verbatim>\<open>GLCmdBufferSubData\<close> is sized by its
  member \<^verbatim>\<open>size\<close>.
\<close>

definition GLCmdLayouts :: "GLCmdLayout list" where
  "GLCmdLayouts =
     [layout ''GLOpcodeBufferSubData'' ''GLCmdBufferSubData'' 3 (Arrays 1 2),
      layout ''GLOpcodeCopyBufferSubData'' ''GLCmdCopyBufferSubData'' 5 NoTrailing,
      layout ''GLOpcodeClearBufferData'' ''GLCmdClearBufferData'' 2 NoTrailing,
      layout ''GLOpcodeClearBufferSubData'' ''GLCmdClearBufferSubData'' 4 NoTrailing,
      layout ''GLOpcodeCopyImageSubData'' ''GLCmdCopyImageSubData'' 7 NoTrailing,
      layout ''GLOpcodeCopyImageToBuffer'' ''GLCmdCopyImageBuffer'' 7 NoTrailing,
      layout ''GLOpcodeCopyImageFromBuffer'' ''GLCmdCopyImageBuffer'' 7 NoTrailing,
      layout ''GLOpcodeGenerateMipmap'' ''GLCmdGenerateMipmap'' 1 NoTrailing,
      layout ''GLOpcodeGenerateMipmapSubresource'' ''GLCmdGenerateMipmapSubresource'' 5 NoTrailing,
      layout ''GLOpcodeExecute'' ''GLCmdExecute'' 1 NoTrailing,
      layout ''GLOpcodeViewport'' ''GLCmdViewport'' 2 NoTrailing,
      layout ''GLOpcodeViewportArray'' ''GLCmdViewportArray'' 2 (Arrays 2 1),
      layout ''GLOpcodeScissor'' ''GLCmdScissor'' 1 NoTrailing,
      layout ''GLOpcodeScissorArray'' ''GLCmdScissorArray'' 2 (Arrays 1 1),
      layout ''GLOpcodeClearColor'' ''GLCmdClearColor'' 1 NoTrailing,
      layout ''GLOpcodeClearDepth'' ''GLCmdClearDepth'' 1 NoTrailing,
      layout ''GLOpcodeClearStencil'' ''GLCmdClearStencil'' 1 NoTrailing,
      layout ''GLOpcodeClear'' ''GLCmdClear'' 1 NoTrailing,
      layout ''GLOpcodeClearAttachmentsWithRenderPass'' ''GLCmdClearAttachmentsWithRenderPass'' 2 (Arrays 1 1),
      layout ''GLOpcodeClearBuffers'' ''GLCmdClearBuffers'' 1 (Arrays 1 0),
      layout ''GLOpcodeBindVertexArray'' ''GLCmdBindVertexArray'' 1 NoTrailing,
      layout ''GLOpcodeBindGL2XVertexArray'' ''GLCmdBindGL2XVertexArray'' 1 NoTrailing,
      layout ''GLOpcodeBindElementArrayBufferToVAO'' ''GLCmdBindElementArrayBufferToVAO'' 2 NoTrailing,
      layout ''GLOpcodeBindBufferBase'' ''GLCmdBindBufferBase'' 3 NoTrailing,
      layout ''GLOpcodeBindBuffersBase'' ''GLCmdBindBuffersBase'' 3 (Arrays 1 2),
      layout ''GLOpcodeBeginTransformFeedback'' ''GLCmdBeginTransformFeedback'' 1 NoTrailing,
      layout ''GLOpcodeBeginTransformFeedbackNV'' ''GLCmdBeginTransformFeedbackNV'' 1 NoTrailing,
      layout ''GLOpcodeEndTransformFeedback'' ''GLCmdEndTransformFeedback'' 0 NoTrailing,
      layout ''GLOpcodeEndTransformFeedbackNV'' ''GLCmdEndTransformFeedbackNV'' 0 NoTrailing,
      layout ''GLOpcodeBindResourceHeap'' ''GLCmdBindResourceHeap'' 2 NoTrailing,
      layout ''GLOpcodeBindRenderTarget'' ''GLCmdBindRenderTarget'' 1 NoTrailing,
      layout ''GLOpcodeBindPipelineState'' ''GLCmdBindPipelineState'' 1 NoTrailing,
      layout ''GLOpcodeSetBlendColor'' ''GLCmdSetBlendColor'' 1 NoTrailing,
      layout ''GLOpcodeSetStencilRef'' ''GLCmdSetStencilRef'' 2 NoTrailing,
      layout ''GLOpcodeSetUniforms'' ''GLCmdSetUniforms'' 5 (Arrays 1 4),
      layout ''GLOpcodeBeginQuery'' ''GLCmdBeginQuery'' 2 NoTrailing,
      layout ''GLOpcodeEndQuery'' ''GLCmdEndQuery'' 1 NoTrailing,
      layout ''GLOpcodeBeginConditionalRender'' ''GLCmdBeginConditionalRender'' 2 NoTrailing,
      layout ''GLOpcodeEndConditionalRender'' ''GLCmdEndConditionalRender'' 0 NoTrailing,
      layout ''GLOpcodeDrawArrays'' ''GLCmdDrawArrays'' 3 NoTrailing,
      layout ''GLOpcodeDrawArraysInstanced'' ''GLCmdDrawArraysInstanced'' 4 NoTrailing,
      layout ''GLOpcodeDrawArraysInstancedBaseInstance'' ''GLCmdDrawArraysInstancedBaseInstance'' 5 NoTrailing,
      layout ''GLOpcodeDrawArraysIndirect'' ''GLCmdDrawArraysIndirect'' 5 NoTrailing,
      layout ''GLOpcodeDrawElements'' ''GLCmdDrawElements'' 4 NoTrailing,
      layout ''GLOpcodeDrawElementsBaseVertex'' ''GLCmdDrawElementsBaseVertex'' 5 NoTrailing,
      layout ''GLOpcodeDrawElementsInstanced'' ''GLCmdDrawElementsInstanced'' 5 NoTrailing,
      layout ''GLOpcodeDrawElementsInstancedBaseVertex'' ''GLCmdDrawElementsInstancedBaseVertex'' 6 NoTrailing,
      layout ''GLOpcodeDrawElementsInstancedBaseVertexBaseInstance'' ''GLCmdDrawElementsInstancedBaseVertexBaseInstance'' 7 NoTrailing,
      layout ''GLOpcodeDrawElementsIndirect'' ''GLCmdDrawElementsIndirect'' 6 NoTrailing,
      layout ''GLOpcodeMultiDrawArraysIndirect'' ''GLCmdMultiDrawArraysIndirect'' 5 NoTrailing,
      layout ''GLOpcodeMultiDrawElementsIndirect'' ''GLCmdMultiDrawElementsIndirect'' 6 NoTrailing,
      layout ''GLOpcodeDispatchCompute'' ''GLCmdDispatchCompute'' 1 NoTrailing,
      layout ''GLOpcodeDispatchComputeIndirect'' ''GLCmdDispatchComputeIndirect'' 2 NoTrailing,
      layout ''GLOpcodeBindTexture'' ''GLCmdBindTexture'' 2 NoTrailing,
      layout ''GLOpcodeBindImageTexture'' ''GLCmdBindImageTexture'' 4 NoTrailing,
      layout ''GLOpcodeBindSampler'' ''GLCmdBindSampler'' 2 NoTrailing,
      layout ''GLOpcodeBindGL2XSampler'' ''GLCmdBindGL2XSampler'' 2 NoTrailing,
      layout ''GLOpcodeUnbindResources'' ''GLCmdUnbindResources'' 3 NoTrailing,
      layout ''GLOpcodePushDebugGroup'' ''GLCmdPushDebugGroup'' 3 (Arrays 1 2),
      layout ''GLOpcodePopDebugGroup'' ''GLCmdPopDebugGroup'' 0 NoTrailing]"

text \<open>
  Modelled from the spec: the opcode enumeration (\<^verbatim>\<open>GLOpcode.h\<close>), the encoder
  (\<^verbatim>\<open>GLDeferredCommandBuffer\<close>), the replay (\<^verbatim>\<open>GLCommandExecutor\<close>) and the immediate
  command buffer are missing from the sources. A recorded command is an opcode with the
  values of the members of its payload struct and the elements of its trailing arrays; the
  cells of the stream hold one such value each, as an integer. The opcode of a command is
  its position in the table above, counted from 1. A command is encoded as its opcode, then
  its fixed payload, then its variable-length data directly after the payload; the stream
  of a command buffer is the concatenation of its commands.
\<close>

record GLCommand =
  opcode :: nat
  payload :: "int list"
  trailing :: "int list"

definition layoutOf :: "nat \<Rightarrow> GLCmdLayout option" where
  "layoutOf opc =
     (if 1 \<le> opc \<and> opc \<le> length GLCmdLayouts then Some (GLCmdLayouts ! (opc - 1)) else None)"

fun trailingLength :: "Trailing \<Rightarrow> int list \<Rightarrow> nat" where
  "trailingLength NoTrailing pl = 0"
| "trailingLength (Arrays k i) pl = (if i < length pl then k * nat (pl ! i) else 0)"

definition wellFormed :: "GLCommand \<Rightarrow> bool" where
  "wellFormed c =
     (case layoutOf (opcode c) of
        None \<Rightarrow> False
      | Some l \<Rightarrow> length (payload c) = numMembers l \<and>
          length (trailing c) = trailingLength (trailingArrays l) (payload c))"

definition EncodeCommand :: "GLCommand \<Rightarrow> int list" where
  "EncodeCommand c = int (opcode c) # payload c @ trailing c"

definition EncodeCommands :: "GLCommand list \<Rightarrow> int list" where
  "EncodeCommands cs = concat (map EncodeCommand cs)"

text \<open>
  The replay reads the opcode, takes the payload the opcode calls for and then the trailing
  data the payload calls for; a stream that ends early or has an unknown opcode cannot be
  replayed (\<open>None\<close>).
\<close>

fun DecodeCommand :: "int list \<Rightarrow> (GLCommand \<times> int list) option" where
  "DecodeCommand [] = None"
| "DecodeCommand (opc # rest) =
     (case layoutOf (nat opc) of
        None \<Rightarrow> None
      | Some l \<Rightarrow>
          if opc < 0 \<or> length rest < numMembers l then None
          else if length (drop (numMembers l) rest)
                    < trailingLength (trailingArrays l) (take (numMembers l) rest) then None
          else Some (\<lparr>opcode = nat opc, payload = take (numMembers l) rest,
                       trailing = take (trailingLength (trailingArrays l) (take (numMembers l) rest))
                                    (drop (numMembers l) rest)\<rparr>,
                     drop (trailingLength (trailingArrays l) (take (numMembers l) rest))
                       (drop (numMembers l) rest)))"

lemma DecodeCommand_shorter:
  "DecodeCommand stream = Some (c, rest) \<Longrightarrow> length rest < length stream"
  by (cases stream) (auto split: option.splits if_splits)

text \<open>
  What a command does is a list of native calls, \<open>perform c\<close>; the native calls themselves
  are the OpenGL API's. The immediate command buffer performs each command as it is issued;
  the replay of a deferred command buffer performs each command as it is read back from the
  stream.
\<close>

definition ExecuteImmediate :: "(GLCommand \<Rightarrow> 'call list) \<Rightarrow> GLCommand list \<Rightarrow> 'call list" where
  "ExecuteImmediate perform cs = concat (map perform cs)"

function ExecuteDeferred :: "(GLCommand \<Rightarrow> 'call list) \<Rightarrow> int list \<Rightarrow> 'call list option" where
  "ExecuteDeferred perform stream =
     (if stream = [] then Some []
      else (case DecodeCommand stream of
              None \<Rightarrow> None
            | Some (c, rest) \<Rightarrow>
                (case ExecuteDeferred perform rest of
                   None \<Rightarrow> None
                 | Some calls \<Rightarrow> Some (perform c @ calls))))"
  by pat_completeness auto
termination
  by (relation "measure (\<lambda>(perform, stream). length stream)")
    (auto dest: DecodeCommand_shorter)

declare ExecuteDeferred.simps [simp del]


section \<open>Canvas: the factory and the default video-mode adaption\<close>

text \<open>
  Claim C9. On a non-mobile platform \<^verbatim>\<open>Canvas::Create\<close> returns null for every
  descriptor, and the default \<^verbatim>\<open>Canvas::AdaptForVideoMode\<close> returns false for every
  video-mode descriptor.
\<close>

theorem Canvas_Create_null_AdaptForVideoMode_false:
  "(Canvas_Create desc :: 'canvas option) = None \<and> \<not> AdaptForVideoMode canvas videoModeDesc"
  by (simp add: Canvas_Create_def AdaptForVideoMode_def)


section \<open>Canvas: the event-listener list\<close>

lemma distinct_AddOnceToSharedList:
  "distinct cont \<Longrightarrow> distinct (AddOnceToSharedList cont entry)"
  by (simp add: AddOnceToSharedList_def)

lemma distinct_RemoveFromSharedList:
  "distinct cont \<Longrightarrow> distinct (RemoveFromSharedList cont entry)"
  by (simp add: RemoveFromSharedList_def)

lemma distinct_applyCanvasOp:
  "distinct (eventListeners c) \<Longrightarrow> distinct (eventListeners (applyCanvasOp c op))"
  by (cases op)
    (simp_all add: AddEventListener_def RemoveEventListener_def distinct_AddOnceToSharedList
      distinct_RemoveFromSharedList)

lemma distinct_foldl_applyCanvasOp:
  "distinct (eventListeners c) \<Longrightarrow> distinct (eventListeners (foldl applyCanvasOp c ops))"
  by (induction ops arbitrary: c) (simp_all add: distinct_applyCanvasOp)

lemma distinct_runCanvasOps: "distinct (eventListeners (runCanvasOps ops))"
  by (simp add: runCanvasOps_def distinct_foldl_applyCanvasOp Canvas_init_def)

lemma AddEventListener_twice:
  "AddEventListener (AddEventListener c l) l = AddEventListener c l"
  by (simp add: AddEventListener_def AddOnceToSharedList_def)

lemma removed_listener_not_notified:
  "distinct (eventListeners c) \<Longrightarrow>
   ListenerOnProcessEvents l \<notin> set (ProcessEvents (RemoveEventListener c l))"
  by (auto simp: ProcessEvents_def RemoveEventListener_def RemoveFromSharedList_def)

text \<open>
  Claim C10. The listener list of a canvas never holds a listener twice: whatever sequence of
  \<^verbatim>\<open>AddEventListener\<close> and \<^verbatim>\<open>RemoveEventListener\<close> calls built the canvas, the list is
  distinct. \<^verbatim>\<open>AddEventListener\<close> leaves the list as it is when the listener is in it and
  appends the listener otherwise, so adding the same listener again changes nothing. After
  \<^verbatim>\<open>RemoveEventListener\<close> the listener is not in the list and \<^verbatim>\<open>ProcessEvents\<close> does not
  call it.
\<close>

theorem Canvas_listeners_never_twice:
  "distinct (eventListeners (runCanvasOps ops)) \<and>
   (l \<in> set (eventListeners c) \<longrightarrow> eventListeners (AddEventListener c l) = eventListeners c) \<and>
   (l \<notin> set (eventListeners c) \<longrightarrow> eventListeners (AddEventListener c l) = eventListeners c @ [l]) \<and>
   AddEventListener (AddEventListener c l) l = AddEventListener c l \<and>
   l \<notin> set (eventListeners (RemoveEventListener (runCanvasOps ops) l)) \<and>
   ListenerOnProcessEvents l \<notin> set (ProcessEvents (RemoveEventListener (runCanvasOps ops) l))"
proof (intro conjI impI)
  show "distinct (eventListeners (runCanvasOps ops))"
    by (rule distinct_runCanvasOps)
  show "l \<notin> set (eventListeners (RemoveEventListener (runCanvasOps ops) l))"
    using distinct_runCanvasOps [of ops]
    by (simp add: RemoveEventListener_def RemoveFromSharedList_def)
  show "ListenerOnProcessEvents l \<notin> set (ProcessEvents (RemoveEventListener (runCanvasOps ops) l))"
    by (rule removed_listener_not_notified [OF distinct_runCanvasOps])
  show "AddEventListener (AddEventListener c l) l = AddEventListener c l"
    by (rule AddEventListener_twice)
qed (simp_all add: AddEventListener_def AddOnceToSharedList_def)

theorem Canvas_listeners_never_twice_witness:
  "eventListeners (runCanvasOps [OpAddEventListener (1::nat), OpAddEventListener 2, OpAddEventListener 1])
     = [1, 2] \<and>
   distinct (eventListeners
     (runCanvasOps [OpAddEventListener (1::nat), OpAddEventListener 2, OpAddEventListener 1])) \<and>
   ProcessEvents (RemoveEventListener
     (runCanvasOps [OpAddEventListener (1::nat), OpAddEventListener 2, OpAddEventListener 1]) 1)
     = [ListenerOnProcessEvents 2, CanvasOnProcessEvents] \<and>
   eventListeners (AddEventListener \<lparr>eventListeners = [1::nat, 2]\<rparr> 2) = [1, 2] \<and>
   eventListeners (AddEventListener \<lparr>eventListeners = [1::nat, 2]\<rparr> 3) = [1, 2, 3]"
  using Canvas_listeners_never_twice
    [of "[OpAddEventListener (1::nat), OpAddEventListener 2, OpAddEventListener 1]" 2
      "\<lparr>eventListeners = [1::nat, 2]\<rparr>"]
    Canvas_listeners_never_twice
    [of "[OpAddEventListener (1::nat), OpAddEventListener 2, OpAddEventListener 1]" 3
      "\<lparr>eventListeners = [1::nat, 2]\<rparr>"]
  by (simp add: runCanvasOps_def Canvas_init_def AddEventListener_def AddOnceToSharedList_def
      RemoveEventListener_def RemoveFromSharedList_def ProcessEvents_def)


section \<open>GLSwapChain: swap buffers\<close>

text \<open>
  Claim C5, as the code has it. The OpenGL swap chain reports one swap buffer and the swap
  index 0, so the index it reports is below the number of buffers it reports.
\<close>

theorem GLSwapChain_swap_index_in_range:
  "GetNumSwapBuffers sc = 1 \<and> GetCurrentSwapIndex sc = 0 \<and>
   GetCurrentSwapIndex sc < GetNumSwapBuffers sc"
  by (simp add: GetNumSwapBuffers_def GetCurrentSwapIndex_def)

text \<open>
  The claim as the specification words it asks for at least two swap buffers; the OpenGL swap
  chain reports one.
\<close>

theorem GLSwapChain_single_buffer_counterexample:
  "\<not> (2 \<le> GetNumSwapBuffers \<lparr>framebufferHeight = 600\<rparr>)"
  by (simp add: GetNumSwapBuffers_def word_le_nat_alt)


theorem GLSwapChain_swap_index_in_range_witness:
  "GetCurrentSwapIndex \<lparr>framebufferHeight = 600\<rparr> < GetNumSwapBuffers \<lparr>framebufferHeight = 600\<rparr>"
  using GLSwapChain_swap_index_in_range [of "\<lparr>framebufferHeight = 600\<rparr>"] by simp

section \<open>Testbed: renderer module names\<close>

lemma regex_match_3digits_iff:
  "regex_match_3digits pre s \<longleftrightarrow>
     (\<exists>a b c. isdigit a \<and> isdigit b \<and> isdigit c \<and> s = pre @ [a, b, c])"
proof
  assume m: "regex_match_3digits pre s"
  then have len: "length (drop (length pre) s) = 3" and tk: "take (length pre) s = pre"
    and dg: "list_all isdigit (drop (length pre) s)"
    by (simp_all add: regex_match_3digits_def)
  from len obtain a b c where d: "drop (length pre) s = [a, b, c]"
    unfolding numeral_3_eq_3 length_Suc_conv length_0_conv by blast
  have "s = take (length pre) s @ drop (length pre) s" by simp
  with tk d have "s = pre @ [a, b, c]" by simp
  with dg d show "\<exists>a b c. isdigit a \<and> isdigit b \<and> isdigit c \<and> s = pre @ [a, b, c]"
    by auto
next
  assume "\<exists>a b c. isdigit a \<and> isdigit b \<and> isdigit c \<and> s = pre @ [a, b, c]"
  then show "regex_match_3digits pre s"
    by (auto simp: regex_match_3digits_def)
qed

lemma isdigit_not_special:
  "isdigit c \<Longrightarrow> \<not> isspace c \<and> c \<noteq> CHR ''-'' \<and> c \<noteq> CHR ''+'' \<and> c \<noteq> CHR 0x00"
  by (auto simp: isdigit_def isspace_def)

lemma atoi_3digits:
  assumes "isdigit a" "isdigit b" "isdigit c"
  shows "atoi [a, b, c] = digit_val a * 100 + digit_val b * 10 + digit_val c"
  using assms isdigit_not_special [of a]
  by (simp add: atoi_def digit_val_def)

lemma c_str_no_NUL: "CHR 0x00 \<notin> set s \<Longrightarrow> c_str s = s"
  by (auto simp: c_str_def takeWhile_eq_all_conv)


text \<open>
  Claim C7. \<^verbatim>\<open>GetRendererModule\<close> maps every recognised alias to its backend module with
  version 0, maps \<^verbatim>\<open>gl\<close> or \<^verbatim>\<open>opengl\<close> followed by exactly three decimal digits to
  \<^verbatim>\<open>OpenGL\<close> with the version those digits spell, and returns every other name unchanged
  with version 0. A module name is a command-line argument, a C string, so it holds no NUL
  character.
\<close>

theorem GetRendererModule_aliases_and_versions:
  "(nm \<in> {''gl'', ''opengl''} \<longrightarrow> GetRendererModule nm = \<lparr>name = ''OpenGL'', version = 0\<rparr>) \<and>
   (nm \<in> {''vk'', ''vulkan''} \<longrightarrow> GetRendererModule nm = \<lparr>name = ''Vulkan'', version = 0\<rparr>) \<and>
   (nm \<in> {''mt'', ''mtl'', ''metal''} \<longrightarrow> GetRendererModule nm = \<lparr>name = ''Metal'', version = 0\<rparr>) \<and>
   (nm \<in> {''d3d11'', ''dx11'', ''direct3d11''} \<longrightarrow>
      GetRendererModule nm = \<lparr>name = ''Direct3D11'', version = 0\<rparr>) \<and>
   (nm \<in> {''d3d12'', ''dx12'', ''direct3d12''} \<longrightarrow>
      GetRendererModule nm = \<lparr>name = ''Direct3D12'', version = 0\<rparr>) \<and>
   (nm = ''null'' \<longrightarrow> GetRendererModule nm = \<lparr>name = ''Null'', version = 0\<rparr>) \<and>
   (\<forall>a b c. isdigit a \<and> isdigit b \<and> isdigit c \<and> (nm = ''gl'' @ [a, b, c] \<or> nm = ''opengl'' @ [a, b, c]) \<longrightarrow>
      GetRendererModule nm =
        \<lparr>name = ''OpenGL'', version = digit_val a * 100 + digit_val b * 10 + digit_val c\<rparr>) \<and>
   (nm \<notin> {''gl'', ''opengl'', ''vk'', ''vulkan'', ''mt'', ''mtl'', ''metal'', ''d3d11'', ''dx11'',
          ''direct3d11'', ''d3d12'', ''dx12'', ''direct3d12'', ''null''} \<and>
    \<not> (\<exists>a b c. isdigit a \<and> isdigit b \<and> isdigit c \<and>
           (nm = ''gl'' @ [a, b, c] \<or> nm = ''opengl'' @ [a, b, c])) \<and>
    CHR 0x00 \<notin> set nm \<longrightarrow>
      GetRendererModule nm = \<lparr>name = nm, version = 0\<rparr>)"
proof (intro conjI allI impI, goal_cases)
  case 1 then show ?case by (auto simp: GetRendererModule_def)
next
  case 2 then show ?case by (auto simp: GetRendererModule_def)
next
  case 3 then show ?case by (auto simp: GetRendererModule_def)
next
  case 4 then show ?case by (auto simp: GetRendererModule_def)
next
  case 5 then show ?case by (auto simp: GetRendererModule_def)
next
  case 6 then show ?case by (simp add: GetRendererModule_def)
next
  case (7 a b c)
  then have d: "isdigit a" "isdigit b" "isdigit c"
    and n: "nm = ''gl'' @ [a, b, c] \<or> nm = ''opengl'' @ [a, b, c]"
    by simp_all
  from d have nz: "a \<noteq> CHR 0x00" "b \<noteq> CHR 0x00" "c \<noteq> CHR 0x00"
    using isdigit_not_special by blast+
  from n show ?case
  proof
    assume g: "nm = ''gl'' @ [a, b, c]"
    then have "regex_match_3digits ''gl'' nm"
      using d by (simp add: regex_match_3digits_def)
    moreover have "c_str nm = nm"
      using g nz by (simp add: c_str_def)
    ultimately show ?thesis
      using g d by (simp add: GetRendererModule_def atoi_3digits)
  next
    assume g: "nm = ''opengl'' @ [a, b, c]"
    then have "regex_match_3digits ''opengl'' nm" "\<not> regex_match_3digits ''gl'' nm"
      using d by (simp_all add: regex_match_3digits_def)
    moreover have "c_str nm = nm"
      using g nz by (simp add: c_str_def)
    ultimately show ?thesis
      using g d by (simp add: GetRendererModule_def atoi_3digits)
  qed
next
  case 8
  then have "\<not> regex_match_3digits ''gl'' nm" "\<not> regex_match_3digits ''opengl'' nm"
    unfolding regex_match_3digits_iff by blast+
  with 8 show ?case
    by (simp add: GetRendererModule_def c_str_no_NUL)
qed

theorem GetRendererModule_aliases_and_versions_witness:
  "GetRendererModule ''gl'' = \<lparr>name = ''OpenGL'', version = 0\<rparr> \<and>
   GetRendererModule ''vulkan'' = \<lparr>name = ''Vulkan'', version = 0\<rparr> \<and>
   GetRendererModule ''mtl'' = \<lparr>name = ''Metal'', version = 0\<rparr> \<and>
   GetRendererModule ''dx11'' = \<lparr>name = ''Direct3D11'', version = 0\<rparr> \<and>
   GetRendererModule ''direct3d12'' = \<lparr>name = ''Direct3D12'', version = 0\<rparr> \<and>
   GetRendererModule ''null'' = \<lparr>name = ''Null'', version = 0\<rparr> \<and>
   GetRendererModule ''gl330'' = \<lparr>name = ''OpenGL'', version = 330\<rparr> \<and>
   GetRendererModule ''opengl046'' = \<lparr>name = ''OpenGL'', version = 46\<rparr> \<and>
   GetRendererModule ''gl33'' = \<lparr>name = ''gl33'', version = 0\<rparr>"
proof -
  have d: "isdigit CHR ''3''" "isdigit CHR ''0''" "isdigit CHR ''4''" "isdigit CHR ''6''"
    by (simp_all add: isdigit_def)
  have v: "digit_val CHR ''3'' = 3" "digit_val CHR ''0'' = 0" "digit_val CHR ''4'' = 4"
    "digit_val CHR ''6'' = 6"
    by (simp_all add: digit_val_def)
  have "GetRendererModule ''gl'' = \<lparr>name = ''OpenGL'', version = 0\<rparr>"
    using GetRendererModule_aliases_and_versions [of "''gl''"] by simp
  moreover have "GetRendererModule ''vulkan'' = \<lparr>name = ''Vulkan'', version = 0\<rparr>"
    using GetRendererModule_aliases_and_versions [of "''vulkan''"] by simp
  moreover have "GetRendererModule ''mtl'' = \<lparr>name = ''Metal'', version = 0\<rparr>"
    using GetRendererModule_aliases_and_versions [of "''mtl''"] by simp
  moreover have "GetRendererModule ''dx11'' = \<lparr>name = ''Direct3D11'', version = 0\<rparr>"
    using GetRendererModule_aliases_and_versions [of "''dx11''"] by simp
  moreover have "GetRendererModule ''direct3d12'' = \<lparr>name = ''Direct3D12'', version = 0\<rparr>"
    using GetRendererModule_aliases_and_versions [of "''direct3d12''"] by simp
  moreover have "GetRendererModule ''null'' = \<lparr>name = ''Null'', version = 0\<rparr>"
    using GetRendererModule_aliases_and_versions [of "''null''"] by simp
  moreover have "GetRendererModule ''gl330'' = \<lparr>name = ''OpenGL'', version = 330\<rparr>"
    using GetRendererModule_aliases_and_versions [of "''gl330''", THEN conjunct2, THEN conjunct2,
        THEN conjunct2, THEN conjunct2, THEN conjunct2, THEN conjunct2, THEN conjunct1, rule_format,
        of "CHR ''3''" "CHR ''3''" "CHR ''0''"] d v by simp
  moreover have "GetRendererModule ''opengl046'' = \<lparr>name = ''OpenGL'', version = 46\<rparr>"
    using GetRendererModule_aliases_and_versions [of "''opengl046''", THEN conjunct2, THEN conjunct2,
        THEN conjunct2, THEN conjunct2, THEN conjunct2, THEN conjunct2, THEN conjunct1, rule_format,
        of "CHR ''0''" "CHR ''4''" "CHR ''6''"] d v by simp
  moreover have "GetRendererModule ''gl33'' = \<lparr>name = ''gl33'', version = 0\<rparr>"
    using GetRendererModule_aliases_and_versions [of "''gl33''", THEN conjunct2, THEN conjunct2,
        THEN conjunct2, THEN conjunct2, THEN conjunct2, THEN conjunct2, THEN conjunct2, rule_format]
    by simp
  ultimately show ?thesis by blast
qed

section \<open>The staging buffer pool: auxiliary facts\<close>

text \<open>Equations for evaluating the pool's functions on concrete states.\<close>

lemmas example_defs = exampleDevice_def examplePool_def exampleContext_def exampleBuffer_def
  D3D12StagingBuffer_default_def

lemmas pool_eval = WriteStaged_def WriteImmediate_def ReadSubresourceRegion_def
  WriteStaged_findChunk.simps AllocChunk_def D3D12StagingBuffer_new_def CreateResource_def
  TransitionResource_def D3D12_RESOURCE_STATE_COPY_DEST_def D3D12_RESOURCE_STATE_COPY_SOURCE_def
  WriteAndIncrementOffset_def Write_def FAILED_def copyRegion_def S_OK_def Capacity_def
  GetUploadBufferAndGrow_def GetReadbackBufferAndGrow_def ResizeBuffer_def
  D3D12StagingBuffer_Create_def GetAlignedSize_def FinishAndSubmitCommandContext_def allocated_def


text \<open>The chunk search of \<^verbatim>\<open>WriteStaged\<close>.\<close>

lemma findChunk_lower: "idx \<le> WriteStaged_findChunk cs idx n"
proof (induction cs idx n rule: WriteStaged_findChunk.induct)
  case (1 cs idx dataSize)
  show ?case
  proof (cases "idx < length cs \<and> \<not> Capacity (cs ! idx) dataSize")
    case True
    with 1 have "idx + 1 \<le> WriteStaged_findChunk cs (idx + 1) dataSize" by simp
    with True show ?thesis by (subst WriteStaged_findChunk.simps) simp
  next
    case False
    then show ?thesis by (subst WriteStaged_findChunk.simps) auto
  qed
qed

lemma findChunk_upper: "idx \<le> length cs \<Longrightarrow> WriteStaged_findChunk cs idx n \<le> length cs"
proof (induction cs idx n rule: WriteStaged_findChunk.induct)
  case (1 cs idx dataSize)
  show ?case
  proof (cases "idx < length cs \<and> \<not> Capacity (cs ! idx) dataSize")
    case True
    with 1 have "WriteStaged_findChunk cs (idx + 1) dataSize \<le> length cs" by simp
    with True show ?thesis by (subst WriteStaged_findChunk.simps) simp
  next
    case False
    with 1 show ?thesis by (subst WriteStaged_findChunk.simps) auto
  qed
qed

lemma findChunk_skipped:
  "idx \<le> i \<Longrightarrow> i < WriteStaged_findChunk cs idx n \<Longrightarrow> \<not> Capacity (cs ! i) n"
proof (induction cs idx n rule: WriteStaged_findChunk.induct)
  case (1 cs idx dataSize)
  show ?case
  proof (cases "idx < length cs \<and> \<not> Capacity (cs ! idx) dataSize")
    case True
    then have eq: "WriteStaged_findChunk cs idx dataSize = WriteStaged_findChunk cs (idx + 1) dataSize"
      by (subst WriteStaged_findChunk.simps) simp
    show ?thesis
    proof (cases "i = idx")
      case True
      with \<open>idx < length cs \<and> \<not> Capacity (cs ! idx) dataSize\<close> show ?thesis by simp
    next
      case False
      with "1.prems" have "idx + 1 \<le> i" by simp
      with 1 True eq show ?thesis by simp
    qed
  next
    case False
    then have "WriteStaged_findChunk cs idx dataSize = idx"
      by (subst WriteStaged_findChunk.simps) auto
    with "1.prems" show ?thesis by simp
  qed
qed

lemma findChunk_fits:
  "WriteStaged_findChunk cs idx n < length cs \<Longrightarrow> Capacity (cs ! WriteStaged_findChunk cs idx n) n"
proof (induction cs idx n rule: WriteStaged_findChunk.induct)
  case (1 cs idx dataSize)
  show ?case
  proof (cases "idx < length cs \<and> \<not> Capacity (cs ! idx) dataSize")
    case True
    then have eq: "WriteStaged_findChunk cs idx dataSize = WriteStaged_findChunk cs (idx + 1) dataSize"
      by (subst WriteStaged_findChunk.simps) simp
    with 1 True show ?thesis by simp
  next
    case False
    then have eq: "WriteStaged_findChunk cs idx dataSize = idx"
      by (subst WriteStaged_findChunk.simps) auto
    with "1.prems" False show ?thesis by auto
  qed
qed

lemma WriteStaged_existing_chunk:
  assumes j: "WriteStaged_findChunk (chunks pool) (chunkIdx pool) dataSize < length (chunks pool)"
  shows "WriteStaged pool dev ctx dstBuffer dstOffset data dataSize mapResult =
     (case WriteAndIncrementOffset
             (chunks pool ! WriteStaged_findChunk (chunks pool) (chunkIdx pool) dataSize) dev
             (fst (TransitionResource ctx dstBuffer D3D12_RESOURCE_STATE_COPY_DEST))
             (native dstBuffer) dstOffset data dataSize mapResult of
        None \<Rightarrow> None
      | Some (hr, chunk, dev', ctx2) \<Rightarrow>
          Some (hr,
            pool\<lparr>chunks := (chunks pool)
                    [WriteStaged_findChunk (chunks pool) (chunkIdx pool) dataSize := chunk],
                 chunkIdx := WriteStaged_findChunk (chunks pool) (chunkIdx pool) dataSize\<rparr>,
            dev',
            TransitionResource ctx2
              (snd (TransitionResource ctx dstBuffer D3D12_RESOURCE_STATE_COPY_DEST))
              (currentState dstBuffer)))"
  using j
  by (auto simp: WriteStaged_def Let_def TransitionResource_def split: prod.splits option.splits)

lemma WriteStaged_new_chunk:
  assumes j: "WriteStaged_findChunk (chunks pool) (chunkIdx pool) dataSize = length (chunks pool)"
  shows "WriteStaged pool dev ctx dstBuffer dstOffset data dataSize mapResult =
     (case D3D12StagingBuffer_new dev (max (chunkSize pool) dataSize) of
        (newChunk, dev1) \<Rightarrow>
          (case WriteAndIncrementOffset newChunk dev1
                  (fst (TransitionResource ctx dstBuffer D3D12_RESOURCE_STATE_COPY_DEST))
                  (native dstBuffer) dstOffset data dataSize mapResult of
             None \<Rightarrow> None
           | Some (hr, chunk, dev', ctx2) \<Rightarrow>
               Some (hr,
                 pool\<lparr>chunks := chunks pool @ [chunk], chunkIdx := length (chunks pool)\<rparr>,
                 dev',
                 TransitionResource ctx2
                   (snd (TransitionResource ctx dstBuffer D3D12_RESOURCE_STATE_COPY_DEST))
                   (currentState dstBuffer))))"
  using j
  by (auto simp: WriteStaged_def Let_def AllocChunk_def TransitionResource_def
      split: prod.splits option.splits)

text \<open>When a write into a staging buffer is defined.\<close>

lemma Capacity_room:
  assumes "bufOffset buf \<le> bufSize buf" "Capacity buf n"
  shows "unat (bufOffset buf) + unat n \<le> unat (bufSize buf)"
proof -
  from assms(1) have "unat (bufSize buf - bufOffset buf) = unat (bufSize buf) - unat (bufOffset buf)"
    by (simp add: unat_sub)
  moreover from assms(2) have "unat n \<le> unat (bufSize buf - bufOffset buf)"
    by (simp add: Capacity_def word_le_nat_alt)
  moreover from assms(1) have "unat (bufOffset buf) \<le> unat (bufSize buf)"
    by (simp add: word_le_nat_alt)
  ultimately show ?thesis by simp
qed

lemma Write_defined:
  assumes "allocated dev buf" "Capacity buf n" "unat n \<le> length data"
  shows "Write buf dev ctx d off data n mapResult \<noteq> None"
proof -
  from assms(1) obtain r where r: "bufNative buf = Some r"
    and len: "length (resourceMemory dev r) = unat (bufSize buf)"
    and off: "bufOffset buf \<le> bufSize buf"
    by (auto simp: allocated_def split: option.splits)
  from Capacity_room [OF off assms(2)] len
  have "unat (bufOffset buf) + unat n \<le> length (resourceMemory dev r)" by simp
  with r assms(3) show ?thesis
    by (simp add: Write_def Let_def copyRegion_def)
qed

lemma WriteAndIncrementOffset_defined:
  assumes "allocated dev buf" "Capacity buf n" "unat n \<le> length data"
  shows "WriteAndIncrementOffset buf dev ctx d off data n mapResult \<noteq> None"
  using Write_defined [OF assms, of ctx d off mapResult]
  by (auto simp: WriteAndIncrementOffset_def split: option.splits)

lemma new_chunk_allocated:
  "D3D12StagingBuffer_new dev sz = (c, dev') \<Longrightarrow>
   allocated dev' c \<and> bufSize c = sz \<and> bufOffset c = 0"
  by (auto simp: D3D12StagingBuffer_new_def CreateResource_def allocated_def)

lemma new_chunk_Capacity:
  "D3D12StagingBuffer_new dev (max cs n) = (c, dev') \<Longrightarrow> Capacity c n"
  by (auto simp: D3D12StagingBuffer_new_def CreateResource_def Capacity_def)


lemma TransitionResource_result:
  "TransitionResource ctx resource newState = (ctx', resource') \<Longrightarrow>
   currentState resource' = newState \<and> native resource' = native resource"
  by (auto simp: TransitionResource_def split: if_splits)


section \<open>The staging buffer pool: sizes and capacity\<close>

text \<open>The alignment-rounded size is not below the size, as long as it stays below \<open>2^64\<close>.\<close>

lemma round_up_bounds:
  fixes s a :: nat
  assumes "0 < a"
  shows "s \<le> ((s + a - 1) div a) * a" and "((s + a - 1) div a) * a \<le> s + a - 1"
proof -
  let ?x = "s + a - 1"
  have "?x = (?x div a) * a + ?x mod a" by simp
  moreover have "?x mod a < a" using assms by simp
  ultimately have "?x < (?x div a) * a + a" by linarith
  with assms show "s \<le> (?x div a) * a" by linarith
  show "(?x div a) * a \<le> ?x" by simp
qed

lemma unat_GetAlignedSize:
  assumes "1 < alignment" "unat sz + unat alignment \<le> 2 ^ 64"
  shows "unat (GetAlignedSize sz alignment) =
    ((unat sz + unat alignment - 1) div unat alignment) * unat alignment"
proof -
  from assms(1) have a: "0 < unat alignment"
    by (simp add: word_less_nat_alt)
  define r where "r = ((unat sz + unat alignment - 1) div unat alignment) * unat alignment"
  from round_up_bounds(2) [OF a, of "unat sz"] assms(2) a
  have "r < 2 ^ 64"
    unfolding r_def by linarith
  then have "unat (of_nat r :: 64 word) = r"
    by (simp add: unat_of_nat)
  moreover have "GetAlignedSize sz alignment = of_nat r"
    using assms(1) unfolding GetAlignedSize_def r_def by simp
  ultimately show ?thesis
    unfolding r_def by simp
qed

lemma GetAlignedSize_ge:
  assumes "unat sz + unat alignment \<le> 2 ^ 64"
  shows "sz \<le> GetAlignedSize sz alignment"
proof (cases "1 < alignment")
  case True
  then have a: "0 < unat alignment" by (simp add: word_less_nat_alt)
  from unat_GetAlignedSize [OF True assms] round_up_bounds(1) [OF a, of "unat sz"]
  show ?thesis by (simp add: word_le_nat_alt)
next
  case False
  then show ?thesis by (simp add: GetAlignedSize_def)
qed

lemma unat_GetAlignedSize_le:
  assumes "unat sz + unat alignment \<le> 2 ^ 64"
  shows "unat (GetAlignedSize sz alignment) \<le> unat sz + unat alignment"
proof (cases "1 < alignment")
  case True
  then have a: "0 < unat alignment" by (simp add: word_less_nat_alt)
  from unat_GetAlignedSize [OF True assms] round_up_bounds(2) [OF a, of "unat sz"]
  show ?thesis by linarith
next
  case False
  then show ?thesis by (simp add: GetAlignedSize_def)
qed




lemma ResizeBuffer_fits:
  "Capacity buf (GetAlignedSize sz alignment) \<Longrightarrow>
   ResizeBuffer buf dev heapType sz alignment = (buf, dev)"
  by (simp add: ResizeBuffer_def)

lemma ResizeBuffer_recreates:
  "\<not> Capacity buf (GetAlignedSize sz alignment) \<Longrightarrow>
   ResizeBuffer buf dev heapType sz alignment =
     D3D12StagingBuffer_Create buf dev (GetAlignedSize sz alignment) 4096 heapType"
  by (simp add: ResizeBuffer_def)

lemma ResizeBuffer_grows:
  assumes off: "bufOffset buf = 0" and fits: "sizeFits sz alignment"
    and r: "ResizeBuffer buf dev heapType sz alignment = (buf', dev')"
  shows "bufSize buf \<le> bufSize buf' \<and> bufOffset buf' = 0 \<and> sz \<le> bufSize buf'"
proof -
  from fits have f1: "unat sz + unat alignment \<le> 2 ^ 64"
    by (simp add: sizeFits_def)
  have a1: "sz \<le> GetAlignedSize sz alignment"
    by (rule GetAlignedSize_ge [OF f1])
  show ?thesis
  proof (cases "Capacity buf (GetAlignedSize sz alignment)")
    case True
    with r have "buf' = buf" by (simp add: ResizeBuffer_def)
    moreover from True off have "GetAlignedSize sz alignment \<le> bufSize buf"
      by (simp add: Capacity_def)
    ultimately show ?thesis using off a1 by auto
  next
    case False
    with off have lt: "bufSize buf < GetAlignedSize sz alignment"
      by (simp add: Capacity_def)
    from unat_GetAlignedSize_le [OF f1] fits
    have "unat (GetAlignedSize sz alignment) + unat (4096 :: UINT64) \<le> 2 ^ 64"
      by (simp add: sizeFits_def)
    then have a2: "GetAlignedSize sz alignment \<le> GetAlignedSize (GetAlignedSize sz alignment) 4096"
      by (rule GetAlignedSize_ge)
    from False r have "bufSize buf' = GetAlignedSize (GetAlignedSize sz alignment) 4096"
      and "bufOffset buf' = 0"
      by (auto simp: ResizeBuffer_def Let_def D3D12StagingBuffer_Create_def CreateResource_def)
    with lt a1 a2 show ?thesis by auto
  qed
qed



















section \<open>WriteStaged: the chunk that receives the data\<close>

text \<open>
  Claim C1. Let \<open>j\<close> be the index the search of \<^verbatim>\<open>WriteStaged\<close> stops at, starting from the
  pool's current chunk index (which is at most the number of chunks). Every chunk from the
  current index up to \<open>j\<close> lacks the capacity for \<open>dataSize\<close>. If \<open>j\<close> is the index of an
  existing chunk, that chunk has the capacity, no chunk is added, and the data is written
  into it. Otherwise no chunk from the current index onward fits, exactly one chunk, built
  with the size \<open>max chunkSize dataSize\<close>, is appended, and the data is written into it. In
  both cases the chunk written becomes the current chunk and the \<^verbatim>\<open>HRESULT\<close> of the write
  is returned. On allocated chunks and with \<open>dataSize\<close> bytes of data at hand, the call is
  defined.
\<close>

theorem WriteStaged_finds_or_allocates_chunk:
  assumes inv: "chunkIdx pool \<le> length (chunks pool)"
  shows "let j = WriteStaged_findChunk (chunks pool) (chunkIdx pool) dataSize;
             ctx1 = fst (TransitionResource ctx dstBuffer D3D12_RESOURCE_STATE_COPY_DEST);
             dst1 = snd (TransitionResource ctx dstBuffer D3D12_RESOURCE_STATE_COPY_DEST)
         in chunkIdx pool \<le> j \<and> j \<le> length (chunks pool) \<and>
            (\<forall>i. chunkIdx pool \<le> i \<and> i < j \<longrightarrow> \<not> Capacity (chunks pool ! i) dataSize) \<and>
            (j < length (chunks pool) \<longrightarrow>
               Capacity (chunks pool ! j) dataSize \<and>
               WriteStaged pool dev ctx dstBuffer dstOffset data dataSize mapResult =
                 (case WriteAndIncrementOffset (chunks pool ! j) dev ctx1 (native dstBuffer)
                         dstOffset data dataSize mapResult of
                    None \<Rightarrow> None
                  | Some (hr, chunk, dev', ctx2) \<Rightarrow>
                      Some (hr, pool\<lparr>chunks := (chunks pool)[j := chunk], chunkIdx := j\<rparr>, dev',
                            TransitionResource ctx2 dst1 (currentState dstBuffer)))) \<and>
            (j = length (chunks pool) \<longrightarrow>
               (case D3D12StagingBuffer_new dev (max (chunkSize pool) dataSize) of
                  (newChunk, dev1) \<Rightarrow>
                    bufSize newChunk = max (chunkSize pool) dataSize \<and>
                    WriteStaged pool dev ctx dstBuffer dstOffset data dataSize mapResult =
                      (case WriteAndIncrementOffset newChunk dev1 ctx1 (native dstBuffer)
                              dstOffset data dataSize mapResult of
                         None \<Rightarrow> None
                       | Some (hr, chunk, dev', ctx2) \<Rightarrow>
                           Some (hr,
                             pool\<lparr>chunks := chunks pool @ [chunk],
                                  chunkIdx := length (chunks pool)\<rparr>, dev',
                             TransitionResource ctx2 dst1 (currentState dstBuffer))))) \<and>
            ((\<forall>c \<in> set (chunks pool). allocated dev c) \<and> unat dataSize \<le> length data \<longrightarrow>
               WriteStaged pool dev ctx dstBuffer dstOffset data dataSize mapResult \<noteq> None)"
proof -
  define j where "j = WriteStaged_findChunk (chunks pool) (chunkIdx pool) dataSize"
  have b: "chunkIdx pool \<le> j" "j \<le> length (chunks pool)"
    using findChunk_lower findChunk_upper [OF inv] by (simp_all add: j_def)
  have sk: "\<forall>i. chunkIdx pool \<le> i \<and> i < j \<longrightarrow> \<not> Capacity (chunks pool ! i) dataSize"
    using findChunk_skipped by (auto simp: j_def)
  have ex: "Capacity (chunks pool ! j) dataSize" if "j < length (chunks pool)"
    using findChunk_fits that by (simp add: j_def)
  have new: "case D3D12StagingBuffer_new dev (max (chunkSize pool) dataSize) of
      (newChunk, dev1) \<Rightarrow> bufSize newChunk = max (chunkSize pool) dataSize"
    by (simp add: D3D12StagingBuffer_new_def CreateResource_def)
  have df: "WriteStaged pool dev ctx dstBuffer dstOffset data dataSize mapResult \<noteq> None"
    if al: "\<forall>c \<in> set (chunks pool). allocated dev c" and len: "unat dataSize \<le> length data"
  proof (cases "j < length (chunks pool)")
    case True
    then have "allocated dev (chunks pool ! j)" using al by simp
    from WriteAndIncrementOffset_defined [OF this ex [OF True] len]
    show ?thesis
      using True
      by (simp add: WriteStaged_existing_chunk [OF True [unfolded j_def]] j_def
          split: option.splits prod.splits)
  next
    case False
    with b have eq: "j = length (chunks pool)" by simp
    obtain c dev1 where n: "D3D12StagingBuffer_new dev (max (chunkSize pool) dataSize) = (c, dev1)"
      by (cases "D3D12StagingBuffer_new dev (max (chunkSize pool) dataSize)")
    from new_chunk_allocated [OF n] new_chunk_Capacity [OF n]
    have "allocated dev1 c" "Capacity c dataSize" by simp_all
    from WriteAndIncrementOffset_defined [OF this len]
    show ?thesis
      by (simp add: WriteStaged_new_chunk [OF eq [unfolded j_def]] n
          split: option.splits prod.splits)
  qed
  show ?thesis
    unfolding Let_def j_def [symmetric]
    using b sk ex new df
      WriteStaged_existing_chunk [of pool dataSize dev ctx dstBuffer dstOffset data mapResult]
      WriteStaged_new_chunk [of pool dataSize dev ctx dstBuffer dstOffset data mapResult]
    unfolding j_def [symmetric]
    by (auto split: prod.splits)
qed

theorem WriteStaged_finds_or_allocates_chunk_witness:
  "WriteStaged_findChunk (chunks examplePool) (chunkIdx examplePool) 2 = 1 \<and>
   (case WriteStaged examplePool exampleDevice exampleContext exampleBuffer 0 [9, 9] 2 0 of
      None \<Rightarrow> False
    | Some (hr, pool', dev', ctx', buffer') \<Rightarrow>
        hr = S_OK \<and> chunkIdx pool' = 1 \<and>
        chunks pool' = [\<lparr>bufNative = Some 1, bufSize = 4, bufOffset = 4\<rparr>,
                        \<lparr>bufNative = Some 2, bufSize = 8, bufOffset = 2\<rparr>] \<and>
        resourceMemory dev' 2 = [9, 9, 0, 0, 0, 0, 0, 0]) \<and>
   WriteStaged_findChunk (chunks examplePool) (chunkIdx examplePool) 9 = 2 \<and>
   (case WriteStaged examplePool exampleDevice exampleContext exampleBuffer 0
           [9, 8, 7, 6, 5, 4, 3, 2, 1] 9 0 of
      None \<Rightarrow> False
    | Some (hr, pool', dev', ctx', buffer') \<Rightarrow>
        hr = S_OK \<and> chunkIdx pool' = 2 \<and>
        chunks pool' = [\<lparr>bufNative = Some 1, bufSize = 4, bufOffset = 4\<rparr>,
                        \<lparr>bufNative = Some 2, bufSize = 8, bufOffset = 0\<rparr>,
                        \<lparr>bufNative = Some 3, bufSize = 16, bufOffset = 9\<rparr>] \<and>
        take 9 (resourceMemory dev' 3) = [9, 8, 7, 6, 5, 4, 3, 2, 1])"
proof -
  have i: "chunkIdx examplePool \<le> length (chunks examplePool)"
    by (simp add: examplePool_def)
  have a: "\<forall>c \<in> set (chunks examplePool). allocated exampleDevice c"
    by (simp add: example_defs allocated_def)
  show ?thesis
    using WriteStaged_finds_or_allocates_chunk [OF i, of 2 exampleContext exampleBuffer
        exampleDevice 0 "[9, 9]" 0]
      WriteStaged_finds_or_allocates_chunk [OF i, of 9 exampleContext exampleBuffer
        exampleDevice 0 "[9, 8, 7, 6, 5, 4, 3, 2, 1]" 0] a
    by (simp add: example_defs pool_eval)
qed


section \<open>The staging buffer pool: running the command list\<close>

lemma execCommands_append:
  "execCommands dev (xs @ ys) =
     (case execCommands dev xs of None \<Rightarrow> None | Some d \<Rightarrow> execCommands d ys)"
  by (induction xs arbitrary: dev) (auto split: option.splits)

lemma copyRegion_length:
  "copyRegion dst dstOff src srcOff n = Some m \<Longrightarrow> length m = length dst"
  by (auto simp: copyRegion_def split: if_splits)

lemma execCommand_frame:
  "execCommand dev c = Some dev' \<Longrightarrow>
   resourceCalls dev' = resourceCalls dev \<and> numResources dev' = numResources dev \<and>
   submittedCommands dev' = submittedCommands dev \<and>
   length (resourceMemory dev' x) = length (resourceMemory dev x)"
  by (cases c) (auto split: option.splits dest: copyRegion_length)

lemma execCommands_frame:
  "execCommands dev cs = Some dev' \<Longrightarrow>
   resourceCalls dev' = resourceCalls dev \<and> numResources dev' = numResources dev \<and>
   submittedCommands dev' = submittedCommands dev \<and>
   length (resourceMemory dev' x) = length (resourceMemory dev x)"
proof (induction cs arbitrary: dev)
  case Nil
  then show ?case by simp
next
  case (Cons c cs)
  then obtain d where d: "execCommand dev c = Some d" "execCommands d cs = Some dev'"
    by (auto split: option.splits)
  from execCommand_frame [OF d(1), of x] Cons.IH [OF d(2)] show ?case by simp
qed

text \<open>
  Commands that name resources below \<open>n\<close> run alike on two devices that agree on those
  resources, and leave the other resources alone.
\<close>

lemma execCommand_agree:
  assumes "\<forall>x < n. resourceMemory d1 x = resourceMemory d x"
    and "\<forall>r \<in> set (commandResources c). r < n"
    and "execCommand d c = Some d'"
  shows "\<exists>d1'. execCommand d1 c = Some d1' \<and>
           (\<forall>x < n. resourceMemory d1' x = resourceMemory d' x) \<and>
           (\<forall>x. n \<le> x \<longrightarrow> resourceMemory d1' x = resourceMemory d1 x)"
proof (cases c)
  case (CopyBufferRegion dst dstOffset src srcOffset numBytes)
  with assms(2) have b: "dst < n" "src < n" by simp_all
  with assms(1) have e: "resourceMemory d1 dst = resourceMemory d dst"
    "resourceMemory d1 src = resourceMemory d src"
    by simp_all
  from assms(3) CopyBufferRegion obtain m where
    m: "copyRegion (resourceMemory d dst) (unat dstOffset) (resourceMemory d src) (unat srcOffset)
          (unat numBytes) = Some m"
    and d': "d' = d\<lparr>resourceMemory := (resourceMemory d)(dst := m)\<rparr>"
    by (auto split: option.splits)
  have "execCommand d1 c = Some (d1\<lparr>resourceMemory := (resourceMemory d1)(dst := m)\<rparr>)"
    using CopyBufferRegion m e by simp
  moreover have "\<forall>x < n. resourceMemory (d1\<lparr>resourceMemory := (resourceMemory d1)(dst := m)\<rparr>) x
      = resourceMemory d' x"
    using assms(1) d' by simp
  moreover have "\<forall>x. n \<le> x \<longrightarrow>
      resourceMemory (d1\<lparr>resourceMemory := (resourceMemory d1)(dst := m)\<rparr>) x = resourceMemory d1 x"
    using b(1) by simp
  ultimately show ?thesis by blast
next
  case (ResourceBarrier r before after)
  with assms show ?thesis by simp
qed

lemma execCommands_agree:
  "\<forall>x < n. resourceMemory d1 x = resourceMemory d x \<Longrightarrow>
   \<forall>c \<in> set cs. \<forall>r \<in> set (commandResources c). r < n \<Longrightarrow>
   execCommands d cs = Some d' \<Longrightarrow>
   \<exists>d1'. execCommands d1 cs = Some d1' \<and>
     (\<forall>x < n. resourceMemory d1' x = resourceMemory d' x) \<and>
     (\<forall>x. n \<le> x \<longrightarrow> resourceMemory d1' x = resourceMemory d1 x)"
proof (induction cs arbitrary: d d1)
  case Nil
  then show ?case by simp
next
  case (Cons c cs)
  from Cons.prems(3) obtain e where e: "execCommand d c = Some e" "execCommands e cs = Some d'"
    by (auto split: option.splits)
  from Cons.prems(2) have r: "\<forall>r \<in> set (commandResources c). r < n"
    "\<forall>c \<in> set cs. \<forall>r \<in> set (commandResources c). r < n"
    by simp_all
  from execCommand_agree [OF Cons.prems(1) r(1) e(1)] obtain e1 where
    e1: "execCommand d1 c = Some e1" "\<forall>x < n. resourceMemory e1 x = resourceMemory e x"
      "\<forall>x. n \<le> x \<longrightarrow> resourceMemory e1 x = resourceMemory d1 x"
    by blast
  from Cons.IH [OF e1(2) r(2) e(2)] obtain d1' where
    "execCommands e1 cs = Some d1'" "\<forall>x < n. resourceMemory d1' x = resourceMemory d' x"
    "\<forall>x. n \<le> x \<longrightarrow> resourceMemory d1' x = resourceMemory e1 x"
    by blast
  with e1 show ?case by auto
qed

lemma execCommands_barriers:
  "\<forall>b \<in> set bs. \<exists>r x y. b = ResourceBarrier r x y \<Longrightarrow> execCommands dev bs = Some dev"
  by (induction bs) auto

text \<open>The barriers a transfer records around its copies.\<close>

lemma TransitionResource_eq:
  "TransitionResource ctx resource newState =
     (ctx\<lparr>commandList := commandList ctx @
            (if currentState resource = newState then []
             else [ResourceBarrier (native resource) (currentState resource) newState])\<rparr>,
      resource\<lparr>currentState := newState\<rparr>)"
  by (simp add: TransitionResource_def)

lemma TransitionResource_commands:
  "TransitionResource ctx resource newState = (ctx', resource') \<Longrightarrow>
   \<exists>bs. commandList ctx' = commandList ctx @ bs \<and> (\<forall>b \<in> set bs. \<exists>r x y. b = ResourceBarrier r x y)"
  by (auto simp: TransitionResource_def split: if_splits)

lemma copyBracket_barriers:
  "\<forall>b \<in> set (copyBracket resource copyState []). \<exists>r x y. b = ResourceBarrier r x y"
  by (simp add: copyBracket_def)

lemma transitions_bracket:
  assumes t1: "TransitionResource ctx resource copyState = (ctx1, r1)"
    and c: "commandList ctx2 = commandList ctx1 @ copies"
    and t2: "TransitionResource ctx2 r1 (currentState resource) = (ctx3, r2)"
  shows "commandList ctx3 = commandList ctx @ copyBracket resource copyState copies \<and>
         currentState r1 = copyState \<and> r2 = resource"
proof -
  from t1 have a: "commandList ctx1 = commandList ctx @
      (if currentState resource = copyState then []
       else [ResourceBarrier (native resource) (currentState resource) copyState])"
    and r1: "r1 = resource\<lparr>currentState := copyState\<rparr>"
    by (auto simp: TransitionResource_eq)
  from t2 r1 have b: "commandList ctx3 = commandList ctx2 @
      (if copyState = currentState resource then []
       else [ResourceBarrier (native resource) copyState (currentState resource)])"
    and r2: "r2 = resource"
    by (auto simp: TransitionResource_eq)
  from a b c r1 r2 show ?thesis
    by (auto simp: copyBracket_def)
qed

text \<open>What a write into a staging buffer returns and records.\<close>

lemma Write_Some:
  "Write buf dev ctx dstBuffer dstOffset data dataSize mapResult = Some (hr, dev', ctx') \<Longrightarrow>
   hr = (if FAILED mapResult then mapResult else S_OK) \<and>
   (\<exists>r. bufNative buf = Some r \<and>
      commandList ctx' = commandList ctx @
        (if FAILED mapResult then []
         else [CopyBufferRegion dstBuffer dstOffset r (bufOffset buf) dataSize]))"
  by (auto simp: Write_def Let_def split: option.splits if_splits)

lemma WriteAndIncrementOffset_Some:
  "WriteAndIncrementOffset buf dev ctx dstBuffer dstOffset data dataSize mapResult
     = Some (hr, buf', dev', ctx') \<Longrightarrow>
   hr = (if FAILED mapResult then mapResult else S_OK) \<and>
   (\<exists>r. bufNative buf = Some r \<and>
      commandList ctx' = commandList ctx @
        (if FAILED mapResult then []
         else [CopyBufferRegion dstBuffer dstOffset r (bufOffset buf) dataSize]))"
  by (auto simp: WriteAndIncrementOffset_def split: option.splits dest!: Write_Some)

text \<open>What \<^verbatim>\<open>ReadSubresourceRegion\<close> submits and returns, and when it returns.\<close>

lemma ResizeBuffer_frame:
  "ResizeBuffer buf dev ht sz al = (buf', dev') \<Longrightarrow>
   resourceCalls dev' = resourceCalls dev \<and> submittedCommands dev' = submittedCommands dev"
  by (auto simp: ResizeBuffer_def Let_def D3D12StagingBuffer_Create_def CreateResource_def
      split: if_splits)

lemma GetReadbackBufferAndGrow_frame:
  "resourceCalls (snd (GetReadbackBufferAndGrow pool dev sz al)) = resourceCalls dev \<and>
   submittedCommands (snd (GetReadbackBufferAndGrow pool dev sz al)) = submittedCommands dev"
proof -
  obtain b d where r: "ResizeBuffer (globalReadbackBuffer pool) dev D3D12_HEAP_TYPE_READBACK sz al = (b, d)"
    by (cases "ResizeBuffer (globalReadbackBuffer pool) dev D3D12_HEAP_TYPE_READBACK sz al")
  from ResizeBuffer_frame [OF r] r show ?thesis
    by (simp add: GetReadbackBufferAndGrow_def)
qed


lemma FinishAndSubmitCommandContext_Some:
  "FinishAndSubmitCommandContext ctx dev = Some (ctx', dev') \<Longrightarrow>
   \<exists>d. execCommands dev (commandList ctx) = Some d \<and> ctx' = ctx\<lparr>commandList := []\<rparr> \<and>
       dev' = d\<lparr>submittedCommands := submittedCommands d @ commandList ctx\<rparr>"
  by (auto simp: FinishAndSubmitCommandContext_def split: option.splits)

lemma ReadSubresourceRegion_Some:
  assumes r: "ReadSubresourceRegion pool dev ctx srcBuffer srcOffset data dataSize alignment mapResult
      = Some (hr, pool', dev', ctx', src', data')"
  shows "\<exists>readback devCopy devDone.
     pool' = fst (GetReadbackBufferAndGrow pool dev dataSize alignment) \<and>
     bufNative (globalReadbackBuffer pool') = Some readback \<and>
     execCommands (snd (GetReadbackBufferAndGrow pool dev dataSize alignment))
       (commandList (fst (TransitionResource ctx srcBuffer D3D12_RESOURCE_STATE_COPY_SOURCE)))
       = Some devCopy \<and>
     execCommand devCopy (CopyBufferRegion readback 0 (native srcBuffer) srcOffset dataSize)
       = Some devDone \<and>
     src' = srcBuffer \<and> commandList ctx' = [] \<and>
     submittedCommands dev' = submittedCommands dev @ commandList ctx @
       copyBracket srcBuffer D3D12_RESOURCE_STATE_COPY_SOURCE
         [CopyBufferRegion readback 0 (native srcBuffer) srcOffset dataSize] \<and>
     (if FAILED mapResult
      then hr = mapResult \<and> data' = data \<and>
           resourceCalls dev' = resourceCalls dev @ [Map readback 0 dataSize]
      else hr = S_OK \<and>
           copyRegion data 0 (resourceMemory devDone readback) 0 (unat dataSize) = Some data' \<and>
           resourceCalls dev' = resourceCalls dev @ [Map readback 0 dataSize, Unmap readback 0 0])"
proof -
  obtain pool1 dev1 where g: "GetReadbackBufferAndGrow pool dev dataSize alignment = (pool1, dev1)"
    by (cases "GetReadbackBufferAndGrow pool dev dataSize alignment")
  obtain ctx1 src1 where
    t1: "TransitionResource ctx srcBuffer D3D12_RESOURCE_STATE_COPY_SOURCE = (ctx1, src1)"
    by (cases "TransitionResource ctx srcBuffer D3D12_RESOURCE_STATE_COPY_SOURCE")
  from TransitionResource_result [OF t1] have n1: "native src1 = native srcBuffer" by simp
  from r g t1 obtain readback where rb: "bufNative (globalReadbackBuffer pool1) = Some readback"
    by (auto simp: ReadSubresourceRegion_def Let_def split: option.splits)
  define ctx2 where "ctx2 = ctx1\<lparr>commandList := commandList ctx1 @
      [CopyBufferRegion readback 0 (native src1) srcOffset dataSize]\<rparr>"
  obtain ctx3 src2 where t2: "TransitionResource ctx2 src1 (currentState srcBuffer) = (ctx3, src2)"
    by (cases "TransitionResource ctx2 src1 (currentState srcBuffer)")
  have c2: "commandList ctx2 = commandList ctx1 @
      [CopyBufferRegion readback 0 (native srcBuffer) srcOffset dataSize]"
    by (simp add: ctx2_def n1)
  from transitions_bracket [OF t1 c2 t2] have
    cl3: "commandList ctx3 = commandList ctx @
      copyBracket srcBuffer D3D12_RESOURCE_STATE_COPY_SOURCE
        [CopyBufferRegion readback 0 (native srcBuffer) srcOffset dataSize]"
    and s2: "src2 = srcBuffer"
    by simp_all
  from r g t1 rb t2 obtain ctx4 dev2 where
    fs: "FinishAndSubmitCommandContext ctx3 dev1 = Some (ctx4, dev2)"
    by (auto simp: ReadSubresourceRegion_def Let_def ctx2_def split: option.splits)
  from r g t1 rb t2 fs have res:
    "(if FAILED mapResult
      then Some (mapResult, pool1,
             dev2\<lparr>resourceCalls := resourceCalls dev2 @ [Map readback 0 dataSize]\<rparr>,
             ctx4, src2, data)
      else (case copyRegion data 0 (resourceMemory dev2 readback) 0 (unat dataSize) of
              None \<Rightarrow> None
            | Some d' \<Rightarrow>
                Some (S_OK, pool1,
                  dev2\<lparr>resourceCalls := resourceCalls dev2 @
                         [Map readback 0 dataSize, Unmap readback 0 0]\<rparr>,
                  ctx4, src2, d')))
     = Some (hr, pool', dev', ctx', src', data')"
    by (auto simp: ReadSubresourceRegion_def Let_def ctx2_def split: if_splits option.splits)
  from FinishAndSubmitCommandContext_Some [OF fs] obtain dE where
    ex: "execCommands dev1 (commandList ctx3) = Some dE"
    and c4: "ctx4 = ctx3\<lparr>commandList := []\<rparr>"
    and d2: "dev2 = dE\<lparr>submittedCommands := submittedCommands dE @ commandList ctx3\<rparr>"
    by blast
  from TransitionResource_commands [OF t2] obtain bs where
    bs: "commandList ctx3 = commandList ctx2 @ bs" "\<forall>b \<in> set bs. \<exists>r x y. b = ResourceBarrier r x y"
    by blast
  from ex have "execCommands dev1 (commandList ctx1 @
      ([CopyBufferRegion readback 0 (native srcBuffer) srcOffset dataSize] @ bs)) = Some dE"
    using bs(1) c2 by simp
  then obtain devCopy where
    dc: "execCommands dev1 (commandList ctx1) = Some devCopy"
    and rest: "execCommands devCopy
      ([CopyBufferRegion readback 0 (native srcBuffer) srcOffset dataSize] @ bs) = Some dE"
    unfolding execCommands_append [of dev1 "commandList ctx1"]
    by (auto split: option.splits)
  from rest obtain devDone where
    cp: "execCommand devCopy (CopyBufferRegion readback 0 (native srcBuffer) srcOffset dataSize)
      = Some devDone"
    and b2: "execCommands devDone bs = Some dE"
    by (auto split: option.splits)
  from b2 execCommands_barriers [OF bs(2), of devDone] have dE: "dE = devDone" by simp
  from execCommands_frame [OF ex] GetReadbackBufferAndGrow_frame [of pool dev dataSize alignment] g
  have rc: "resourceCalls dE = resourceCalls dev" and sc: "submittedCommands dE = submittedCommands dev"
    by simp_all
  have m2: "resourceMemory dev2 = resourceMemory devDone" "resourceCalls dev2 = resourceCalls dev"
    "submittedCommands dev2 = submittedCommands dev @ commandList ctx @
      copyBracket srcBuffer D3D12_RESOURCE_STATE_COPY_SOURCE
        [CopyBufferRegion readback 0 (native srcBuffer) srcOffset dataSize]"
    using d2 dE rc sc cl3 by simp_all
  show ?thesis
  proof (cases "FAILED mapResult")
    case True
    with res have "hr = mapResult" "pool' = pool1" "data' = data" "ctx' = ctx4" "src' = src2"
      "dev' = dev2\<lparr>resourceCalls := resourceCalls dev2 @ [Map readback 0 dataSize]\<rparr>"
      by simp_all
    with True g rb dc cp m2 c4 s2 show ?thesis
      by (simp add: t1)
  next
    case False
    with res obtain d' where
      o: "copyRegion data 0 (resourceMemory dev2 readback) 0 (unat dataSize) = Some d'"
      and e: "hr = S_OK" "pool' = pool1" "data' = d'" "ctx' = ctx4" "src' = src2"
        "dev' = dev2\<lparr>resourceCalls := resourceCalls dev2 @
           [Map readback 0 dataSize, Unmap readback 0 0]\<rparr>"
      by (auto split: option.splits)
    with False g rb dc cp m2 c4 s2 show ?thesis
      by (simp add: t1)
  qed
qed

lemma ResizeBuffer_ok:
  assumes ok: "globalBufferOk dev buf" and pos: "0 < sz \<or> bufNative buf \<noteq> None"
    and fits: "sizeFits sz alignment"
    and r: "ResizeBuffer buf dev heapType sz alignment = (buf', dev')"
  shows "\<exists>rb. bufNative buf' = Some rb \<and> unat sz \<le> length (resourceMemory dev' rb) \<and>
           bufOffset buf' = 0 \<and>
           unat (bufSize buf') = length (resourceMemory dev' rb) \<and>
           (\<forall>x < numResources dev. resourceMemory dev' x = resourceMemory dev x)"
proof -
  from ok have off: "bufOffset buf = 0" by (simp add: globalBufferOk_def)
  from ResizeBuffer_grows [OF off fits r] have le: "sz \<le> bufSize buf'" and o': "bufOffset buf' = 0"
    by simp_all
  then have ule: "unat sz \<le> unat (bufSize buf')" by (simp add: word_le_nat_alt)
  show ?thesis
  proof (cases "Capacity buf (GetAlignedSize sz alignment)")
    case True
    with r have e: "buf' = buf" "dev' = dev" by (simp_all add: ResizeBuffer_def)
    have "bufNative buf \<noteq> None"
    proof (cases "0 < sz")
      case True
      with le e have "bufSize buf \<noteq> 0" by auto
      with ok show ?thesis by (auto simp: globalBufferOk_def split: option.splits)
    next
      case False
      with pos show ?thesis by simp
    qed
    with ok obtain rb where "bufNative buf = Some rb"
      "length (resourceMemory dev rb) = unat (bufSize buf)"
      by (auto simp: globalBufferOk_def split: option.splits)
    with e ule o' show ?thesis by simp
  next
    case False
    with r have "bufNative buf' = Some (numResources dev)"
      "length (resourceMemory dev' (numResources dev)) = unat (bufSize buf')"
      "\<forall>x < numResources dev. resourceMemory dev' x = resourceMemory dev x"
      by (auto simp: ResizeBuffer_def Let_def D3D12StagingBuffer_Create_def CreateResource_def)
    with ule o' show ?thesis by auto
  qed
qed

lemma ReadSubresourceRegion_defined:
  assumes pend: "execCommands dev (commandList ctx) = Some devP"
    and refs: "\<forall>c \<in> set (commandList ctx). \<forall>r \<in> set (commandResources c). r < numResources dev"
    and src: "native srcBuffer < numResources dev"
    and ok: "globalBufferOk dev (globalReadbackBuffer pool)"
    and pos: "0 < dataSize \<or> bufNative (globalReadbackBuffer pool) \<noteq> None"
    and fits: "sizeFits dataSize alignment"
    and rng: "unat srcOffset + unat dataSize \<le> length (resourceMemory dev (native srcBuffer))"
    and out: "unat dataSize \<le> length data"
  shows "ReadSubresourceRegion pool dev ctx srcBuffer srcOffset data dataSize alignment mapResult
      \<noteq> None \<and>
    (\<exists>devCopy.
       execCommands (snd (GetReadbackBufferAndGrow pool dev dataSize alignment))
         (commandList (fst (TransitionResource ctx srcBuffer D3D12_RESOURCE_STATE_COPY_SOURCE)))
         = Some devCopy \<and>
       resourceMemory devCopy (native srcBuffer) = resourceMemory devP (native srcBuffer))"
proof -
  obtain b dev1 where rz: "ResizeBuffer (globalReadbackBuffer pool) dev D3D12_HEAP_TYPE_READBACK
      dataSize alignment = (b, dev1)"
    by (cases "ResizeBuffer (globalReadbackBuffer pool) dev D3D12_HEAP_TYPE_READBACK dataSize alignment")
  define pool1 where "pool1 = pool\<lparr>globalReadbackBuffer := b\<rparr>"
  from rz have g: "GetReadbackBufferAndGrow pool dev dataSize alignment = (pool1, dev1)"
    by (simp add: GetReadbackBufferAndGrow_def pool1_def)
  from ResizeBuffer_ok [OF ok pos fits rz] obtain rb where
    rb: "bufNative b = Some rb" and len: "unat dataSize \<le> length (resourceMemory dev1 rb)"
    and mem: "\<forall>x < numResources dev. resourceMemory dev1 x = resourceMemory dev x"
    by blast
  from execCommands_agree [OF mem refs pend] obtain d1P where
    e0: "execCommands dev1 (commandList ctx) = Some d1P"
    and ag: "\<forall>x < numResources dev. resourceMemory d1P x = resourceMemory devP x"
    by blast
  from ag src have msrc: "resourceMemory d1P (native srcBuffer) = resourceMemory devP (native srcBuffer)"
    by simp
  from execCommands_frame [OF e0, of rb] len
  have lrb: "unat dataSize \<le> length (resourceMemory d1P rb)" by simp
  from execCommands_frame [OF pend, of "native srcBuffer"] rng msrc
  have lsrc: "unat srcOffset + unat dataSize \<le> length (resourceMemory d1P (native srcBuffer))"
    by simp
  obtain ctx1 src1 where
    t1: "TransitionResource ctx srcBuffer D3D12_RESOURCE_STATE_COPY_SOURCE = (ctx1, src1)"
    by (cases "TransitionResource ctx srcBuffer D3D12_RESOURCE_STATE_COPY_SOURCE")
  from TransitionResource_result [OF t1] have n1: "native src1 = native srcBuffer" by simp
  from TransitionResource_commands [OF t1] obtain bs1 where
    bs1: "commandList ctx1 = commandList ctx @ bs1" "\<forall>b \<in> set bs1. \<exists>r x y. b = ResourceBarrier r x y"
    by auto
  have e1: "execCommands dev1 (commandList ctx1) = Some d1P"
    using execCommands_barriers [OF bs1(2), of d1P] e0
    by (simp add: bs1(1) execCommands_append)
  define ctx2 where "ctx2 = ctx1\<lparr>commandList := commandList ctx1 @
      [CopyBufferRegion rb 0 (native src1) srcOffset dataSize]\<rparr>"
  obtain ctx3 src2 where t2: "TransitionResource ctx2 src1 (currentState srcBuffer) = (ctx3, src2)"
    by (cases "TransitionResource ctx2 src1 (currentState srcBuffer)")
  from TransitionResource_commands [OF t2] obtain bs2 where
    bs2: "commandList ctx3 = commandList ctx2 @ bs2" "\<forall>b \<in> set bs2. \<exists>r x y. b = ResourceBarrier r x y"
    by blast
  from lsrc lrb obtain m where
    cp: "copyRegion (resourceMemory d1P rb) 0 (resourceMemory d1P (native srcBuffer))
      (unat srcOffset) (unat dataSize) = Some m"
    and lm: "length m = length (resourceMemory d1P rb)"
    by (auto simp: copyRegion_def)
  define devDone where "devDone = d1P\<lparr>resourceMemory := (resourceMemory d1P)(rb := m)\<rparr>"
  have ec: "execCommand d1P (CopyBufferRegion rb 0 (native srcBuffer) srcOffset dataSize)
      = Some devDone"
    using cp by (simp add: devDone_def)
  have "execCommands dev1 (commandList ctx3) = Some devDone"
    using e1 ec execCommands_barriers [OF bs2(2), of devDone]
    by (simp add: bs2(1) ctx2_def n1 execCommands_append)
  then have fs: "FinishAndSubmitCommandContext ctx3 dev1 =
      Some (ctx3\<lparr>commandList := []\<rparr>,
            devDone\<lparr>submittedCommands := submittedCommands devDone @ commandList ctx3\<rparr>)"
    by (simp add: FinishAndSubmitCommandContext_def)
  from lm lrb out obtain d' where
    o: "copyRegion data 0 (resourceMemory devDone rb) 0 (unat dataSize) = Some d'"
    by (auto simp: copyRegion_def devDone_def)
  have "ReadSubresourceRegion pool dev ctx srcBuffer srcOffset data dataSize alignment mapResult
      \<noteq> None"
    using g t1 rb t2 fs o
    by (simp add: ReadSubresourceRegion_def Let_def pool1_def ctx2_def)
  with e1 msrc g t1 show ?thesis by simp
qed

text \<open>What the two writes record and return, and when they return.\<close>

lemma WriteStaged_Some:
  assumes w: "WriteStaged pool dev ctx buffer offs data dataSize mapResult
      = Some (hr, pool', dev', ctx', buffer')"
  shows "buffer' = buffer \<and> hr = (if FAILED mapResult then mapResult else S_OK) \<and>
    (\<exists>r off. commandList ctx' = commandList ctx @
       copyBracket buffer D3D12_RESOURCE_STATE_COPY_DEST
         (if FAILED mapResult then []
          else [CopyBufferRegion (native buffer) offs r off dataSize]))"
proof -
  obtain ctx1 b1 where
    t1: "TransitionResource ctx buffer D3D12_RESOURCE_STATE_COPY_DEST = (ctx1, b1)"
    by (cases "TransitionResource ctx buffer D3D12_RESOURCE_STATE_COPY_DEST")
  from TransitionResource_result [OF t1] have n1: "native b1 = native buffer" by simp
  from w t1 obtain c d chunk dev3 ctx2 where
    wa: "WriteAndIncrementOffset c d ctx1 (native b1) offs data dataSize mapResult
      = Some (hr, chunk, dev3, ctx2)"
    and t2: "TransitionResource ctx2 b1 (currentState buffer) = (ctx', buffer')"
    by (auto simp: WriteStaged_def Let_def split: prod.splits if_splits option.splits)
  from WriteAndIncrementOffset_Some [OF wa [unfolded n1]] obtain r where
    hr: "hr = (if FAILED mapResult then mapResult else S_OK)"
    and c2: "commandList ctx2 = commandList ctx1 @
        (if FAILED mapResult then []
         else [CopyBufferRegion (native buffer) offs r (bufOffset c) dataSize])"
    by auto
  from transitions_bracket [OF t1 c2 t2] hr show ?thesis by blast
qed

lemma WriteImmediate_Some:
  assumes w: "WriteImmediate pool dev ctx buffer offs data dataSize alignment mapResult
      = Some (hr, pool', dev', ctx', buffer')"
  shows "buffer' = buffer \<and> hr = (if FAILED mapResult then mapResult else S_OK) \<and>
    (\<exists>r off. commandList ctx' = commandList ctx @
       copyBracket buffer D3D12_RESOURCE_STATE_COPY_DEST
         (if FAILED mapResult then []
          else [CopyBufferRegion (native buffer) offs r off dataSize]))"
proof -
  obtain ctx1 b1 where
    t1: "TransitionResource ctx buffer D3D12_RESOURCE_STATE_COPY_DEST = (ctx1, b1)"
    by (cases "TransitionResource ctx buffer D3D12_RESOURCE_STATE_COPY_DEST")
  from TransitionResource_result [OF t1] have n1: "native b1 = native buffer" by simp
  from w t1 obtain c d dev3 ctx2 where
    wa: "Write c d ctx1 (native b1) offs data dataSize mapResult = Some (hr, dev3, ctx2)"
    and t2: "TransitionResource ctx2 b1 (currentState buffer) = (ctx', buffer')"
    by (auto simp: WriteImmediate_def Let_def split: prod.splits if_splits option.splits)
  from Write_Some [OF wa [unfolded n1]] obtain r where
    hr: "hr = (if FAILED mapResult then mapResult else S_OK)"
    and c2: "commandList ctx2 = commandList ctx1 @
        (if FAILED mapResult then []
         else [CopyBufferRegion (native buffer) offs r (bufOffset c) dataSize])"
    by auto
  from transitions_bracket [OF t1 c2 t2] hr show ?thesis by blast
qed

lemma WriteStaged_defined:
  assumes inv: "chunkIdx pool \<le> length (chunks pool)"
    and al: "\<forall>c \<in> set (chunks pool). allocated dev c"
    and len: "unat dataSize \<le> length data"
  shows "WriteStaged pool dev ctx dstBuffer dstOffset data dataSize mapResult \<noteq> None"
proof -
  let ?j = "WriteStaged_findChunk (chunks pool) (chunkIdx pool) dataSize"
  show ?thesis
  proof (cases "?j < length (chunks pool)")
    case True
    then have "allocated dev (chunks pool ! ?j)" using al by simp
    from WriteAndIncrementOffset_defined [OF this findChunk_fits [OF True] len]
    show ?thesis
      by (simp add: WriteStaged_existing_chunk [OF True] split: option.splits prod.splits)
  next
    case False
    with findChunk_upper [OF inv, of dataSize] have eq: "?j = length (chunks pool)" by simp
    obtain c dev1 where n: "D3D12StagingBuffer_new dev (max (chunkSize pool) dataSize) = (c, dev1)"
      by (cases "D3D12StagingBuffer_new dev (max (chunkSize pool) dataSize)")
    from new_chunk_allocated [OF n] new_chunk_Capacity [OF n]
    have "allocated dev1 c" "Capacity c dataSize" by simp_all
    from WriteAndIncrementOffset_defined [OF this len]
    show ?thesis
      by (simp add: WriteStaged_new_chunk [OF eq] n split: option.splits prod.splits)
  qed
qed

lemma WriteImmediate_defined:
  assumes ok: "globalBufferOk dev (globalUploadBuffer pool)"
    and pos: "0 < dataSize \<or> bufNative (globalUploadBuffer pool) \<noteq> None"
    and fits: "sizeFits dataSize alignment"
    and len: "unat dataSize \<le> length data"
  shows "WriteImmediate pool dev ctx dstBuffer dstOffset data dataSize alignment mapResult \<noteq> None"
proof -
  obtain b dev1 where rz: "ResizeBuffer (globalUploadBuffer pool) dev D3D12_HEAP_TYPE_UPLOAD
      dataSize alignment = (b, dev1)"
    by (cases "ResizeBuffer (globalUploadBuffer pool) dev D3D12_HEAP_TYPE_UPLOAD dataSize alignment")
  then have g: "GetUploadBufferAndGrow pool dev dataSize alignment
      = (pool\<lparr>globalUploadBuffer := b\<rparr>, dev1)"
    by (simp add: GetUploadBufferAndGrow_def)
  from ResizeBuffer_ok [OF ok pos fits rz] obtain rb where
    rb: "bufNative b = Some rb" and l: "unat dataSize \<le> length (resourceMemory dev1 rb)"
    and o: "bufOffset b = 0"
    by blast
  obtain ctx1 b1 where
    t1: "TransitionResource ctx dstBuffer D3D12_RESOURCE_STATE_COPY_DEST = (ctx1, b1)"
    by (cases "TransitionResource ctx dstBuffer D3D12_RESOURCE_STATE_COPY_DEST")
  from rb l o len obtain hr dev2 ctx2 where
    wr: "Write b dev1 ctx1 (native b1) dstOffset data dataSize mapResult = Some (hr, dev2, ctx2)"
    by (cases "Write b dev1 ctx1 (native b1) dstOffset data dataSize mapResult")
      (auto simp: Write_def Let_def copyRegion_def split: if_splits)
  show ?thesis
    by (simp add: WriteImmediate_def Let_def g t1 wr split: prod.splits)
qed




section \<open>Transfers leave the tracked resource state as it was\<close>

text \<open>
  Claim C3. Whenever \<^verbatim>\<open>WriteStaged\<close>, \<^verbatim>\<open>WriteImmediate\<close> or \<^verbatim>\<open>ReadSubresourceRegion\<close>
  returns, the tracked state \<^verbatim>\<open>currentState\<close> of the destination or source buffer is what it
  was before the call, and the buffer was in the copy state for the copy only. The two
  writes append to the command list a barrier that takes the buffer to \<^verbatim>\<open>COPY_DEST\<close>, then
  the copy into the buffer (none when mapping failed), then the barrier that takes the
  buffer back to the saved state. The read submits, after the commands already recorded, a
  barrier that takes the buffer to \<^verbatim>\<open>COPY_SOURCE\<close>, the copy out of the buffer and the
  barrier back, and leaves the command list empty. A buffer that is in the copy state
  already gets no barriers. The calls do return on allocated chunks and global buffers that
  exist once grown, with \<open>dataSize\<close> bytes at hand and, for the read, a source buffer that
  holds the region and recorded commands that run.
\<close>

theorem transfers_restore_currentState:
  "(case WriteStaged pool dev ctx buffer offs data dataSize mapResult of
      None \<Rightarrow> True
    | Some (hr, pool', dev', ctx', buffer') \<Rightarrow>
        currentState buffer' = currentState buffer \<and> native buffer' = native buffer \<and>
        (\<exists>r off. commandList ctx' = commandList ctx @
           copyBracket buffer D3D12_RESOURCE_STATE_COPY_DEST
             (if FAILED mapResult then []
              else [CopyBufferRegion (native buffer) offs r off dataSize]))) \<and>
   (case WriteImmediate pool dev ctx buffer offs data dataSize alignment mapResult of
      None \<Rightarrow> True
    | Some (hr, pool', dev', ctx', buffer') \<Rightarrow>
        currentState buffer' = currentState buffer \<and> native buffer' = native buffer \<and>
        (\<exists>r off. commandList ctx' = commandList ctx @
           copyBracket buffer D3D12_RESOURCE_STATE_COPY_DEST
             (if FAILED mapResult then []
              else [CopyBufferRegion (native buffer) offs r off dataSize]))) \<and>
   (case ReadSubresourceRegion pool dev ctx buffer offs data dataSize alignment mapResult of
      None \<Rightarrow> True
    | Some (hr, pool', dev', ctx', buffer', data') \<Rightarrow>
        currentState buffer' = currentState buffer \<and> native buffer' = native buffer \<and>
        commandList ctx' = [] \<and>
        (\<exists>readback. submittedCommands dev' = submittedCommands dev @ commandList ctx @
           copyBracket buffer D3D12_RESOURCE_STATE_COPY_SOURCE
             [CopyBufferRegion readback 0 (native buffer) offs dataSize])) \<and>
   (chunkIdx pool \<le> length (chunks pool) \<and> (\<forall>c \<in> set (chunks pool). allocated dev c) \<and>
    unat dataSize \<le> length data \<longrightarrow>
      WriteStaged pool dev ctx buffer offs data dataSize mapResult \<noteq> None) \<and>
   (globalBufferOk dev (globalUploadBuffer pool) \<and>
    (0 < dataSize \<or> bufNative (globalUploadBuffer pool) \<noteq> None) \<and>
    sizeFits dataSize alignment \<and> unat dataSize \<le> length data \<longrightarrow>
      WriteImmediate pool dev ctx buffer offs data dataSize alignment mapResult \<noteq> None) \<and>
   (execCommands dev (commandList ctx) \<noteq> None \<and>
    (\<forall>c \<in> set (commandList ctx). \<forall>r \<in> set (commandResources c). r < numResources dev) \<and>
    native buffer < numResources dev \<and>
    globalBufferOk dev (globalReadbackBuffer pool) \<and>
    (0 < dataSize \<or> bufNative (globalReadbackBuffer pool) \<noteq> None) \<and>
    sizeFits dataSize alignment \<and>
    unat offs + unat dataSize \<le> length (resourceMemory dev (native buffer)) \<and>
    unat dataSize \<le> length data \<longrightarrow>
      ReadSubresourceRegion pool dev ctx buffer offs data dataSize alignment mapResult \<noteq> None)"
proof (intro conjI impI)
  show "case WriteStaged pool dev ctx buffer offs data dataSize mapResult of
      None \<Rightarrow> True
    | Some (hr, pool', dev', ctx', buffer') \<Rightarrow>
        currentState buffer' = currentState buffer \<and> native buffer' = native buffer \<and>
        (\<exists>r off. commandList ctx' = commandList ctx @
           copyBracket buffer D3D12_RESOURCE_STATE_COPY_DEST
             (if FAILED mapResult then []
              else [CopyBufferRegion (native buffer) offs r off dataSize]))"
  proof (cases "WriteStaged pool dev ctx buffer offs data dataSize mapResult")
    case None
    then show ?thesis by simp
  next
    case (Some res)
    obtain hr pool' dev' ctx' buffer' where e: "res = (hr, pool', dev', ctx', buffer')"
      by (cases res)
    from WriteStaged_Some [OF Some [unfolded e]] Some e show ?thesis by auto
  qed
next
  show "case WriteImmediate pool dev ctx buffer offs data dataSize alignment mapResult of
      None \<Rightarrow> True
    | Some (hr, pool', dev', ctx', buffer') \<Rightarrow>
        currentState buffer' = currentState buffer \<and> native buffer' = native buffer \<and>
        (\<exists>r off. commandList ctx' = commandList ctx @
           copyBracket buffer D3D12_RESOURCE_STATE_COPY_DEST
             (if FAILED mapResult then []
              else [CopyBufferRegion (native buffer) offs r off dataSize]))"
  proof (cases "WriteImmediate pool dev ctx buffer offs data dataSize alignment mapResult")
    case None
    then show ?thesis by simp
  next
    case (Some res)
    obtain hr pool' dev' ctx' buffer' where e: "res = (hr, pool', dev', ctx', buffer')"
      by (cases res)
    from WriteImmediate_Some [OF Some [unfolded e]] Some e show ?thesis by auto
  qed
next
  show "case ReadSubresourceRegion pool dev ctx buffer offs data dataSize alignment mapResult of
      None \<Rightarrow> True
    | Some (hr, pool', dev', ctx', buffer', data') \<Rightarrow>
        currentState buffer' = currentState buffer \<and> native buffer' = native buffer \<and>
        commandList ctx' = [] \<and>
        (\<exists>readback. submittedCommands dev' = submittedCommands dev @ commandList ctx @
           copyBracket buffer D3D12_RESOURCE_STATE_COPY_SOURCE
             [CopyBufferRegion readback 0 (native buffer) offs dataSize])"
  proof (cases "ReadSubresourceRegion pool dev ctx buffer offs data dataSize alignment mapResult")
    case None
    then show ?thesis by simp
  next
    case (Some res)
    obtain hr pool' dev' ctx' buffer' data' where e: "res = (hr, pool', dev', ctx', buffer', data')"
      by (cases res)
    from ReadSubresourceRegion_Some [OF Some [unfolded e]] Some e show ?thesis by auto
  qed
next
  assume "chunkIdx pool \<le> length (chunks pool) \<and> (\<forall>c \<in> set (chunks pool). allocated dev c) \<and>
    unat dataSize \<le> length data"
  then show "WriteStaged pool dev ctx buffer offs data dataSize mapResult \<noteq> None"
    using WriteStaged_defined by blast
next
  assume "globalBufferOk dev (globalUploadBuffer pool) \<and>
    (0 < dataSize \<or> bufNative (globalUploadBuffer pool) \<noteq> None) \<and>
    sizeFits dataSize alignment \<and> unat dataSize \<le> length data"
  then show "WriteImmediate pool dev ctx buffer offs data dataSize alignment mapResult \<noteq> None"
    using WriteImmediate_defined by blast
next
  assume a: "execCommands dev (commandList ctx) \<noteq> None \<and>
    (\<forall>c \<in> set (commandList ctx). \<forall>r \<in> set (commandResources c). r < numResources dev) \<and>
    native buffer < numResources dev \<and>
    globalBufferOk dev (globalReadbackBuffer pool) \<and>
    (0 < dataSize \<or> bufNative (globalReadbackBuffer pool) \<noteq> None) \<and>
    sizeFits dataSize alignment \<and>
    unat offs + unat dataSize \<le> length (resourceMemory dev (native buffer)) \<and>
    unat dataSize \<le> length data"
  then obtain devP where p: "execCommands dev (commandList ctx) = Some devP" by auto
  from ReadSubresourceRegion_defined [OF p, of buffer pool dataSize alignment offs data mapResult] a
  show "ReadSubresourceRegion pool dev ctx buffer offs data dataSize alignment mapResult \<noteq> None"
    by blast
qed


theorem transfers_restore_currentState_witness:
  "(case WriteStaged examplePool exampleDevice exampleContext exampleBuffer 0 [9, 9] 2 0 of
      None \<Rightarrow> False
    | Some (hr, pool', dev', ctx', buffer') \<Rightarrow>
        commandList ctx' = [ResourceBarrier 0 1 0x400, CopyBufferRegion 0 0 2 0 2,
                            ResourceBarrier 0 0x400 1] \<and>
        currentState buffer' = 1) \<and>
   (case WriteImmediate examplePool exampleDevice exampleContext exampleBuffer 0 [9, 9] 2 256 0 of
      None \<Rightarrow> False
    | Some (hr, pool', dev', ctx', buffer') \<Rightarrow>
        commandList ctx' = [ResourceBarrier 0 1 0x400, CopyBufferRegion 0 0 3 0 2,
                            ResourceBarrier 0 0x400 1] \<and>
        currentState buffer' = 1) \<and>
   (case ReadSubresourceRegion examplePool exampleDevice exampleContext exampleBuffer 2
           [0, 0, 0, 0, 0] 3 256 0 of
      None \<Rightarrow> False
    | Some (hr, pool', dev', ctx', buffer', data') \<Rightarrow>
        submittedCommands dev' = [ResourceBarrier 0 1 0x800, CopyBufferRegion 3 0 0 2 3,
                                  ResourceBarrier 0 0x800 1] \<and>
        commandList ctx' = [] \<and> currentState buffer' = 1)"
proof -
  have h1: "chunkIdx examplePool \<le> length (chunks examplePool) \<and>
    (\<forall>c \<in> set (chunks examplePool). allocated exampleDevice c) \<and>
    unat (2 :: UINT64) \<le> length [9 :: byte, 9]"
    by (simp add: example_defs allocated_def)
  have h2: "globalBufferOk exampleDevice (globalUploadBuffer examplePool) \<and>
    (0 < (2 :: UINT64) \<or> bufNative (globalUploadBuffer examplePool) \<noteq> None) \<and>
    sizeFits 2 256 \<and> unat (2 :: UINT64) \<le> length [9 :: byte, 9]"
    by (simp add: example_defs globalBufferOk_def sizeFits_def)
  have h3: "execCommands exampleDevice (commandList exampleContext) \<noteq> None \<and>
    (\<forall>c \<in> set (commandList exampleContext). \<forall>r \<in> set (commandResources c).
       r < numResources exampleDevice) \<and>
    native exampleBuffer < numResources exampleDevice \<and>
    globalBufferOk exampleDevice (globalReadbackBuffer examplePool) \<and>
    (0 < (3 :: UINT64) \<or> bufNative (globalReadbackBuffer examplePool) \<noteq> None) \<and>
    sizeFits 3 256 \<and>
    unat (2 :: UINT64) + unat (3 :: UINT64)
      \<le> length (resourceMemory exampleDevice (native exampleBuffer)) \<and>
    unat (3 :: UINT64) \<le> length [0 :: byte, 0, 0, 0, 0]"
    by (simp add: example_defs globalBufferOk_def sizeFits_def)
  show ?thesis
    using transfers_restore_currentState [where pool = examplePool and dev = exampleDevice
      and ctx = exampleContext and buffer = exampleBuffer and offs = 0 and data = "[9, 9]"
      and dataSize = 2 and alignment = 256 and mapResult = 0]
    transfers_restore_currentState [where pool = examplePool and dev = exampleDevice
      and ctx = exampleContext and buffer = exampleBuffer and offs = 2
      and data = "[0, 0, 0, 0, 0]" and dataSize = 3 and alignment = 256 and mapResult = 0]
    h1 h2 h3
    by (simp add: example_defs pool_eval copyBracket_def)
qed

section \<open>Reset keeps the chunks\<close>

text \<open>
  Claim C8. \<^verbatim>\<open>Reset\<close> keeps all allocated staging memory: the number of chunks, each
  chunk's capacity and native resource, the chunk size and the global buffers are unchanged,
  while every chunk's write offset and the pool's current chunk index become zero, so that
  the next search of \<^verbatim>\<open>WriteStaged\<close> begins at chunk 0 (and stops there when the first
  chunk is large enough).
\<close>

theorem Reset_retains_chunks:
  "length (chunks (Reset pool)) = length (chunks pool) \<and>
   map bufSize (chunks (Reset pool)) = map bufSize (chunks pool) \<and>
   map bufNative (chunks (Reset pool)) = map bufNative (chunks pool) \<and>
   (\<forall>c \<in> set (chunks (Reset pool)). bufOffset c = 0) \<and>
   chunkIdx (Reset pool) = 0 \<and>
   chunkSize (Reset pool) = chunkSize pool \<and>
   globalUploadBuffer (Reset pool) = globalUploadBuffer pool \<and>
   globalReadbackBuffer (Reset pool) = globalReadbackBuffer pool \<and>
   (\<forall>dataSize. chunks pool \<noteq> [] \<and> dataSize \<le> bufSize (chunks pool ! 0) \<longrightarrow>
      WriteStaged_findChunk (chunks (Reset pool)) (chunkIdx (Reset pool)) dataSize = 0)"
proof -
  have "WriteStaged_findChunk (chunks (Reset pool)) (chunkIdx (Reset pool)) dataSize = 0"
    if "chunks pool \<noteq> []" "dataSize \<le> bufSize (chunks pool ! 0)" for dataSize
    using that
    by (subst WriteStaged_findChunk.simps)
      (simp add: Reset_def D3D12StagingBuffer_Reset_def Capacity_def)
  then show ?thesis
    by (auto simp: Reset_def D3D12StagingBuffer_Reset_def)
qed

theorem Reset_retains_chunks_witness:
  "chunks (Reset examplePool) = [\<lparr>bufNative = Some 1, bufSize = 4, bufOffset = 0\<rparr>,
                                 \<lparr>bufNative = Some 2, bufSize = 8, bufOffset = 0\<rparr>] \<and>
   chunkIdx (Reset examplePool) = 0 \<and>
   WriteStaged_findChunk (chunks examplePool) (chunkIdx examplePool) 2 = 1 \<and>
   WriteStaged_findChunk (chunks (Reset examplePool)) (chunkIdx (Reset examplePool)) 2 = 0"
  using Reset_retains_chunks [of examplePool, THEN conjunct2, THEN conjunct2, THEN conjunct2,
      THEN conjunct2, THEN conjunct2, THEN conjunct2, THEN conjunct2, THEN conjunct2, rule_format,
      of 2]
  by (simp add: example_defs Reset_def D3D12StagingBuffer_Reset_def WriteStaged_findChunk.simps
      Capacity_def)

section \<open>Staging memory only grows\<close>




section \<open>ReadSubresourceRegion: the read-back\<close>






section \<open>The deferred command buffer replays what the immediate one performs\<close>

lemma DecodeCommand_EncodeCommand:
  assumes "wellFormed c"
  shows "DecodeCommand (EncodeCommand c @ rest) = Some (c, rest)"
proof -
  from assms obtain l where l: "layoutOf (opcode c) = Some l"
    and p: "length (payload c) = numMembers l"
    and t: "length (trailing c) = trailingLength (trailingArrays l) (payload c)"
    by (auto simp: wellFormed_def split: option.splits)
  have e: "EncodeCommand c @ rest = int (opcode c) # (payload c @ trailing c @ rest)"
    by (simp add: EncodeCommand_def)
  have tk: "take (numMembers l) (payload c @ trailing c @ rest) = payload c"
    "drop (numMembers l) (payload c @ trailing c @ rest) = trailing c @ rest"
    using p by simp_all
  show ?thesis
    unfolding e using l t by (simp add: tk p)
qed

lemma EncodeCommand_nonempty: "EncodeCommand c \<noteq> []"
  by (simp add: EncodeCommand_def)

lemma ExecuteDeferred_EncodeCommands:
  "\<forall>c \<in> set cs. wellFormed c \<Longrightarrow>
   ExecuteDeferred perform (EncodeCommands cs) = Some (ExecuteImmediate perform cs)"
proof (induction cs)
  case Nil
  then show ?case
    by (subst ExecuteDeferred.simps) (simp add: EncodeCommands_def ExecuteImmediate_def)
next
  case (Cons c cs)
  then have w: "wellFormed c" and ih: "ExecuteDeferred perform (EncodeCommands cs)
      = Some (ExecuteImmediate perform cs)"
    by simp_all
  have e: "EncodeCommands (c # cs) = EncodeCommand c @ EncodeCommands cs"
    by (simp add: EncodeCommands_def)
  show ?case
    unfolding e
    by (subst ExecuteDeferred.simps)
      (simp add: EncodeCommand_nonempty DecodeCommand_EncodeCommand [OF w] ih
        ExecuteImmediate_def)
qed


lemmas glcommand_eval = GLCmdLayouts_def layout_def layoutOf_def wellFormed_def EncodeCommand_def
  EncodeCommands_def ExecuteImmediate_def


text \<open>
  Claim C4. For every sequence of commands whose payloads and trailing data have the sizes
  their opcodes call for, replaying the encoded stream performs the same native calls, in
  the same order and with the same arguments, as issuing the commands immediately. Each
  command is encoded as its opcode and its fixed payload, with the variable-length data
  directly after the payload, and the replay reads each command back as it was recorded,
  whatever follows it in the stream.
\<close>

theorem deferred_replay_refines_immediate:
  "(\<forall>c \<in> set cs. wellFormed c) \<longrightarrow>
     ExecuteDeferred perform (EncodeCommands cs) = Some (ExecuteImmediate perform cs) \<and>
     (\<forall>c \<in> set cs. \<forall>rest. DecodeCommand (EncodeCommand c @ rest) = Some (c, rest) \<and>
        EncodeCommand c = int (opcode c) # payload c @ trailing c)"
proof (intro impI conjI ballI allI)
  assume w: "\<forall>c \<in> set cs. wellFormed c"
  show "ExecuteDeferred perform (EncodeCommands cs) = Some (ExecuteImmediate perform cs)"
    by (rule ExecuteDeferred_EncodeCommands [OF w])
  show "DecodeCommand (EncodeCommand c @ rest) = Some (c, rest)" if "c \<in> set cs" for c rest
    using w that by (simp add: DecodeCommand_EncodeCommand)
  show "EncodeCommand c = int (opcode c) # payload c @ trailing c" for c
    by (simp add: EncodeCommand_def)
qed


theorem deferred_replay_refines_immediate_witness:
  "EncodeCommands
     [\<lparr>opcode = 1, payload = [100, 0, 3], trailing = [7, 8, 9]\<rparr>,
      \<lparr>opcode = 12, payload = [0, 2], trailing = [10, 11, 20, 21]\<rparr>,
      \<lparr>opcode = 40, payload = [4, 0, 36], trailing = []\<rparr>,
      \<lparr>opcode = 60, payload = [], trailing = []\<rparr>]
     = [1, 100, 0, 3, 7, 8, 9, 12, 0, 2, 10, 11, 20, 21, 40, 4, 0, 36, 60] \<and>
   ExecuteDeferred (\<lambda>c. [c]) [1, 100, 0, 3, 7, 8, 9, 12, 0, 2, 10, 11, 20, 21, 40, 4, 0, 36, 60]
     = Some [\<lparr>opcode = 1, payload = [100, 0, 3], trailing = [7, 8, 9]\<rparr>,
             \<lparr>opcode = 12, payload = [0, 2], trailing = [10, 11, 20, 21]\<rparr>,
             \<lparr>opcode = 40, payload = [4, 0, 36], trailing = []\<rparr>,
             \<lparr>opcode = 60, payload = [], trailing = []\<rparr>]"
proof -
  have w: "\<forall>c \<in> set [\<lparr>opcode = 1, payload = [100, 0, 3], trailing = [7, 8, 9]\<rparr>,
      \<lparr>opcode = 12, payload = [0, 2], trailing = [10, 11, 20, 21]\<rparr>,
      \<lparr>opcode = 40, payload = [4, 0, 36], trailing = []\<rparr>,
      \<lparr>opcode = 60, payload = [], trailing = []\<rparr>]. wellFormed c"
    by (simp add: glcommand_eval)
  have e: "EncodeCommands
     [\<lparr>opcode = 1, payload = [100, 0, 3], trailing = [7, 8, 9]\<rparr>,
      \<lparr>opcode = 12, payload = [0, 2], trailing = [10, 11, 20, 21]\<rparr>,
      \<lparr>opcode = 40, payload = [4, 0, 36], trailing = []\<rparr>,
      \<lparr>opcode = 60, payload = [], trailing = []\<rparr>]
     = [1, 100, 0, 3, 7, 8, 9, 12, 0, 2, 10, 11, 20, 21, 40, 4, 0, 36, 60]"
    by (simp add: EncodeCommands_def EncodeCommand_def)
  from deferred_replay_refines_immediate [THEN mp, OF w, THEN conjunct1, of "\<lambda>c. [c]"] e
  show ?thesis by (simp add: ExecuteImmediate_def)
qed

end
